theory Spec2Isabelle
  imports Complex_Main "HOL-Library.AList" "HOL-Library.Code_Target_Nat"
begin

section \<open>Data model (shared schema)\<close>

text \<open>
  The tables of the schema become records. A JavaScript \<open>Map\<close> keeps its keys in
  insertion order and \<open>set\<close> on a present key keeps the key's position, so a
  \<open>Map<number, T>\<close> is an association list with \<open>map_of\<close> for \<open>get\<close>,
  \<open>AList.update\<close> for \<open>set\<close> and \<open>AList.delete\<close> for \<open>delete\<close>.
  Integers of the program (ids, counters, byte counts, millisecond timestamps) are
  natural numbers; strings are byte strings.
\<close>

datatype pdfStatusEnum = Ready | Queued | Downloading | Completed | Failed

record PdfFile =
  pdf_id :: nat
  pdf_url :: string
  pdf_filename :: string
  pdf_size :: string
  pdf_status :: pdfStatusEnum
  pdf_progress :: nat
  pdf_createdAt :: nat

text \<open>\<open>Partial<PdfFile>\<close>: every key may be absent (\<open>None\<close>).\<close>

record PdfFilePartial =
  p_id :: "nat option"
  p_url :: "string option"
  p_filename :: "string option"
  p_size :: "string option"
  p_status :: "pdfStatusEnum option"
  p_progress :: "nat option"
  p_createdAt :: "nat option"

text \<open>
  The job's \<open>status\<close> is a free text column; \<open>size\<close> and \<open>completedAt\<close> may be
  null or missing (\<open>None\<close>).
\<close>

record DownloadJob =
  job_id :: nat
  job_name :: string
  job_totalFiles :: nat
  job_downloadedFiles :: nat
  job_size :: "string option"
  job_status :: string
  job_createdAt :: nat
  job_completedAt :: "nat option"

record DownloadJobPartial =
  q_id :: "nat option"
  q_name :: "string option"
  q_totalFiles :: "nat option"
  q_downloadedFiles :: "nat option"
  q_size :: "string option option"
  q_status :: "string option"
  q_createdAt :: "nat option"
  q_completedAt :: "nat option option"

record CompletedDownload =
  cd_id :: nat
  cd_filename :: string
  cd_contents :: string
  cd_size :: string
  cd_path :: string
  cd_date :: nat

record Settings =
  defaultUrl :: string
  defaultPdfsPerZip :: nat
  settings_maxConcurrentDownloads :: nat
  saveDownloadHistory :: bool

record History =
  h_id :: nat
  h_date :: nat
  h_action :: string
  h_details :: string
  h_filesCount :: nat

definition noPdfFields :: PdfFilePartial where
  "noPdfFields = \<lparr>p_id = None, p_url = None, p_filename = None, p_size = None,
     p_status = None, p_progress = None, p_createdAt = None\<rparr>"

definition noJobFields :: DownloadJobPartial where
  "noJobFields = \<lparr>q_id = None, q_name = None, q_totalFiles = None,
     q_downloadedFiles = None, q_size = None, q_status = None, q_createdAt = None,
     q_completedAt = None\<rparr>"

text \<open>The object spread \<open>{ ...file, ...data }\<close>: a key of \<open>data\<close> wins.\<close>

definition orElse :: "'a option \<Rightarrow> 'a \<Rightarrow> 'a" where
  "orElse opt d = (case opt of None \<Rightarrow> d | Some v \<Rightarrow> v)"

definition spreadPdfFile :: "PdfFile \<Rightarrow> PdfFilePartial \<Rightarrow> PdfFile" where
  "spreadPdfFile file d =
     \<lparr>pdf_id = orElse (p_id d) (pdf_id file),
      pdf_url = orElse (p_url d) (pdf_url file),
      pdf_filename = orElse (p_filename d) (pdf_filename file),
      pdf_size = orElse (p_size d) (pdf_size file),
      pdf_status = orElse (p_status d) (pdf_status file),
      pdf_progress = orElse (p_progress d) (pdf_progress file),
      pdf_createdAt = orElse (p_createdAt d) (pdf_createdAt file)\<rparr>"

definition spreadDownloadJob :: "DownloadJob \<Rightarrow> DownloadJobPartial \<Rightarrow> DownloadJob" where
  "spreadDownloadJob job d =
     \<lparr>job_id = orElse (q_id d) (job_id job),
      job_name = orElse (q_name d) (job_name job),
      job_totalFiles = orElse (q_totalFiles d) (job_totalFiles job),
      job_downloadedFiles = orElse (q_downloadedFiles d) (job_downloadedFiles job),
      job_size = orElse (q_size d) (job_size job),
      job_status = orElse (q_status d) (job_status job),
      job_createdAt = orElse (q_createdAt d) (job_createdAt job),
      job_completedAt = orElse (q_completedAt d) (job_completedAt job)\<rparr>"

section \<open>The record store (server/storage.ts, class MemStorage)\<close>

record MemStorage =
  pdfFiles :: "(nat \<times> PdfFile) list"
  downloadJobs :: "(nat \<times> DownloadJob) list"
  completedDownloads :: "(nat \<times> CompletedDownload) list"
  settingsData :: "Settings option"
  historyEntries :: "(nat \<times> History) list"
  pdfFilesCounter :: nat
  downloadJobsCounter :: nat
  completedDownloadsCounter :: nat
  historyCounter :: nat

text \<open>The constructor.\<close>

definition newMemStorage :: MemStorage where
  "newMemStorage =
     \<lparr>pdfFiles = [], downloadJobs = [], completedDownloads = [],
      settingsData = Some \<lparr>defaultUrl = ''https://www.archives.gov/research/jfk/release-2025'',
        defaultPdfsPerZip = 100, settings_maxConcurrentDownloads = 3,
        saveDownloadHistory = True\<rparr>,
      historyEntries = [],
      pdfFilesCounter = 1, downloadJobsCounter = 1, completedDownloadsCounter = 1,
      historyCounter = 1\<rparr>"

definition getPdfFiles :: "MemStorage \<Rightarrow> PdfFile list" where
  "getPdfFiles st = map snd (pdfFiles st)"

definition getPdfFile :: "nat \<Rightarrow> MemStorage \<Rightarrow> PdfFile option" where
  "getPdfFile i st = map_of (pdfFiles st) i"

text \<open>
  \<open>createPdfFile\<close> takes the insert record \<open>{url, filename, size, status}\<close> and the
  clock (\<open>new Date()\<close>).
\<close>

definition createPdfFile ::
  "nat \<Rightarrow> string \<Rightarrow> string \<Rightarrow> string \<Rightarrow> pdfStatusEnum \<Rightarrow> MemStorage \<Rightarrow> PdfFile \<times> MemStorage" where
  "createPdfFile now u fname sz stat st =
     (let i = pdfFilesCounter st;
          newFile = \<lparr>pdf_id = i, pdf_url = u, pdf_filename = fname, pdf_size = sz,
            pdf_status = stat, pdf_progress = 0, pdf_createdAt = now\<rparr>
      in (newFile, st\<lparr>pdfFilesCounter := i + 1,
                       pdfFiles := AList.update i newFile (pdfFiles st)\<rparr>))"

definition updatePdfFile ::
  "nat \<Rightarrow> PdfFilePartial \<Rightarrow> MemStorage \<Rightarrow> PdfFile option \<times> MemStorage" where
  "updatePdfFile i d st =
     (case map_of (pdfFiles st) i of
        None \<Rightarrow> (None, st)
      | Some file \<Rightarrow>
          (let updatedFile = spreadPdfFile file d
           in (Some updatedFile, st\<lparr>pdfFiles := AList.update i updatedFile (pdfFiles st)\<rparr>)))"

definition deletePdfFile :: "nat \<Rightarrow> MemStorage \<Rightarrow> bool \<times> MemStorage" where
  "deletePdfFile i st =
     (map_of (pdfFiles st) i \<noteq> None, st\<lparr>pdfFiles := AList.delete i (pdfFiles st)\<rparr>)"

definition getDownloadJob :: "nat \<Rightarrow> MemStorage \<Rightarrow> DownloadJob option" where
  "getDownloadJob i st = map_of (downloadJobs st) i"

text \<open>\<open>createDownloadJob\<close> takes the insert record \<open>{name, totalFiles, status}\<close>.\<close>

definition createDownloadJob ::
  "nat \<Rightarrow> string \<Rightarrow> nat \<Rightarrow> string \<Rightarrow> MemStorage \<Rightarrow> DownloadJob \<times> MemStorage" where
  "createDownloadJob now nm tot stat st =
     (let i = downloadJobsCounter st;
          newJob = \<lparr>job_id = i, job_name = nm, job_totalFiles = tot,
            job_downloadedFiles = 0, job_size = None, job_status = stat,
            job_createdAt = now, job_completedAt = None\<rparr>
      in (newJob, st\<lparr>downloadJobsCounter := i + 1,
                      downloadJobs := AList.update i newJob (downloadJobs st)\<rparr>))"

definition updateDownloadJob ::
  "nat \<Rightarrow> DownloadJobPartial \<Rightarrow> MemStorage \<Rightarrow> DownloadJob option \<times> MemStorage" where
  "updateDownloadJob i d st =
     (case map_of (downloadJobs st) i of
        None \<Rightarrow> (None, st)
      | Some job \<Rightarrow>
          (let updatedJob = spreadDownloadJob job d
           in (Some updatedJob, st\<lparr>downloadJobs := AList.update i updatedJob (downloadJobs st)\<rparr>)))"

definition deleteDownloadJob :: "nat \<Rightarrow> MemStorage \<Rightarrow> bool \<times> MemStorage" where
  "deleteDownloadJob i st =
     (map_of (downloadJobs st) i \<noteq> None,
      st\<lparr>downloadJobs := AList.delete i (downloadJobs st)\<rparr>)"

text \<open>\<open>createCompletedDownload\<close> takes \<open>{filename, contents, size, path}\<close>.\<close>

definition createCompletedDownload ::
  "nat \<Rightarrow> string \<Rightarrow> string \<Rightarrow> string \<Rightarrow> string \<Rightarrow> MemStorage \<Rightarrow> CompletedDownload \<times> MemStorage" where
  "createCompletedDownload now fname cont sz pth st =
     (let i = completedDownloadsCounter st;
          newDownload = \<lparr>cd_id = i, cd_filename = fname, cd_contents = cont, cd_size = sz,
            cd_path = pth, cd_date = now\<rparr>
      in (newDownload, st\<lparr>completedDownloadsCounter := i + 1,
            completedDownloads := AList.update i newDownload (completedDownloads st)\<rparr>))"

text \<open>\<open>createHistoryEntry\<close> takes \<open>{action, details, filesCount}\<close>.\<close>

definition createHistoryEntry ::
  "nat \<Rightarrow> string \<Rightarrow> string \<Rightarrow> nat \<Rightarrow> MemStorage \<Rightarrow> History \<times> MemStorage" where
  "createHistoryEntry now act det cnt st =
     (let i = historyCounter st;
          newEntry = \<lparr>h_id = i, h_date = now, h_action = act, h_details = det,
            h_filesCount = cnt\<rparr>
      in (newEntry, st\<lparr>historyCounter := i + 1,
            historyEntries := AList.update i newEntry (historyEntries st)\<rparr>))"

section \<open>Strings, numbers and patterns used by the downloader\<close>

text \<open>Decimal rendering of a number inside a template literal.\<close>

fun showNat :: "nat \<Rightarrow> string" where
  "showNat n = (if n < 10 then [''0123456789'' ! n]
                else showNat (n div 10) @ [''0123456789'' ! (n mod 10)])"

declare showNat.simps [simp del]

text \<open>
  Numbers that JavaScript holds as doubles (rates, sizes divided by 1024) are exact
  rationals here. \<open>x.toFixed(1)\<close> for \<open>x \<ge> 0\<close>: the integer \<open>n\<close> with \<open>n / 10\<close>
  nearest to \<open>x\<close> (the larger one on a tie), printed with one decimal.
\<close>

definition toFixed1 :: "rat \<Rightarrow> string" where
  "toFixed1 x = (let n = nat \<lfloor>10 * x + 1 / 2\<rfloor>
                 in showNat (n div 10) @ ''.'' @ showNat (n mod 10))"

text \<open>The size formatting of \<open>downloadFile\<close> (lines 155-165) and \<open>completeJob\<close> (287-297).\<close>

definition formatSize :: "nat \<Rightarrow> string" where
  "formatSize bytes =
     (if bytes < 1024 then showNat bytes @ '' B''
      else if bytes < 1024 * 1024 then toFixed1 (of_nat bytes / 1024) @ '' KB''
      else if bytes < 1024 * 1024 * 1024 then toFixed1 (of_nat bytes / (1024 * 1024)) @ '' MB''
      else toFixed1 (of_nat bytes / (1024 * 1024 * 1024)) @ '' GB'')"

definition isDigit :: "char \<Rightarrow> bool" where
  "isDigit c = (c \<in> set ''0123456789'')"

text \<open>\<open>\s\<close> on ASCII: tab, line feed, vertical tab, form feed, carriage return, space.\<close>

definition isSpace :: "char \<Rightarrow> bool" where
  "isSpace c = (of_char c \<in> {9, 10, 11, 12, 13, 32 :: nat})"

text \<open>\<open>parseInt(s, 10)\<close> on a string of digits.\<close>

definition parseInt :: "string \<Rightarrow> nat" where
  "parseInt s = fold (\<lambda>c n. 10 * n + (of_char c - 48)) s 0"

text \<open>\<open>name.match(/Series (\d+)/)\<close>: the first capture group of the leftmost match.\<close>

fun matchSeries :: "string \<Rightarrow> string option" where
  "matchSeries [] = None"
| "matchSeries (c # cs) =
     (if take 7 (c # cs) = ''Series '' \<and> takeWhile isDigit (drop 7 (c # cs)) \<noteq> []
      then Some (takeWhile isDigit (drop 7 (c # cs)))
      else matchSeries cs)"

text \<open>\<open>filename.match(/^(\d{3})/)\<close>.\<close>

definition matchPrefix3 :: "string \<Rightarrow> string option" where
  "matchPrefix3 s = (if length (take 3 s) = 3 \<and> list_all isDigit (take 3 s)
                     then Some (take 3 s) else None)"

text \<open>
  \<open>name.match(/(\d+)-(\d+)/)\<close>: both capture groups of the leftmost match. At a start
  position the greedy \<open>\d+\<close> takes the whole run of digits; giving digits back cannot
  help, since the next character must be the hyphen.
\<close>

fun matchRange :: "string \<Rightarrow> (string \<times> string) option" where
  "matchRange [] = None"
| "matchRange (c # cs) =
     (let a = takeWhile isDigit (c # cs); r = dropWhile isDigit (c # cs)
      in if a \<noteq> [] \<and> take 1 r = ''-'' \<and> takeWhile isDigit (drop 1 r) \<noteq> []
         then Some (a, takeWhile isDigit (drop 1 r))
         else matchRange cs)"

text \<open>\<open>filename.match(/(\d+)/)\<close>: the first run of digits.\<close>

definition matchFirstNumber :: "string \<Rightarrow> string option" where
  "matchFirstNumber s =
     (let a = takeWhile isDigit (dropWhile (\<lambda>c. \<not> isDigit c) s)
      in if a = [] then None else Some a)"

text \<open>\<open>s.includes(pat)\<close>.\<close>

fun str_includes :: "string \<Rightarrow> string \<Rightarrow> bool" where
  "str_includes [] pat = (pat = [])"
| "str_includes (c # cs) pat = (take (length pat) (c # cs) = pat \<or> str_includes cs pat)"

text \<open>\<open>s.replace(/\s+/g, "-")\<close> and \<open>toLowerCase\<close> (ASCII letters).\<close>

function replaceSpaces :: "string \<Rightarrow> string" where
  "replaceSpaces [] = []"
| "replaceSpaces (c # cs) =
     (if isSpace c then CHR ''-'' # replaceSpaces (dropWhile isSpace cs)
      else c # replaceSpaces cs)"
  by pat_completeness auto
termination
  by (relation "measure length") (auto simp: length_dropWhile_le less_Suc_eq_le)

definition toLowerCase :: "string \<Rightarrow> string" where
  "toLowerCase s = map (\<lambda>c. if 65 \<le> (of_char c :: nat) \<and> (of_char c :: nat) \<le> 90
                              then char_of (of_char c + 32 :: nat) else c) s"

section \<open>The downloader (server/downloader.ts, class Downloader)\<close>

record ActiveDownload =
  ad_jobId :: nat
  ad_fileId :: nat
  bytesDownloaded :: nat
  startTime :: nat

text \<open>
  The fields of the class. (\<open>downloadSpeeds\<close> is never read or written after the
  constructor and is left out.) The capacity is a field so that it can be any number;
  the constructor sets 3.
\<close>

record Downloader =
  maxConcurrentDownloads :: nat
  activeDownloads :: "(nat \<times> ActiveDownload) list"
  queue :: "(nat \<times> PdfFile) list"
  cancelledJobs :: "nat set"

definition newDownloader :: Downloader where
  "newDownloader = \<lparr>maxConcurrentDownloads = 3, activeDownloads = [], queue = [],
     cancelledJobs = {}\<rparr>"

subsection \<open>getCurrentSpeed (lines 366-394)\<close>

text \<open>
  The loop over \<open>activeDownloads.values()\<close> with its two accumulators; \<open>now\<close> is
  \<open>Date.now()\<close>.
\<close>

definition getCurrentSpeed :: "nat \<Rightarrow> Downloader \<Rightarrow> string" where
  "getCurrentSpeed now dl =
     (let (totalSpeed, activeCount) =
            fold (\<lambda>download (totalSpeed, activeCount).
                    let elapsedSeconds = (of_nat now - of_nat (startTime download)) / (1000 :: rat)
                    in if elapsedSeconds > 0
                       then (totalSpeed + of_nat (bytesDownloaded download) / elapsedSeconds,
                             activeCount + 1)
                       else (totalSpeed, activeCount))
                 (map snd (activeDownloads dl)) (0 :: rat, 0 :: nat)
      in if activeCount = 0 then ''0 KB/s''
         else (let avgSpeed = totalSpeed / of_nat activeCount
               in if avgSpeed < 1024 then toFixed1 avgSpeed @ '' B/s''
                  else if avgSpeed < 1024 * 1024 then toFixed1 (avgSpeed / 1024) @ '' KB/s''
                  else toFixed1 (avgSpeed / (1024 * 1024)) @ '' MB/s''))"





section \<open>Asynchronous execution\<close>

text \<open>
  The methods of the downloader are \<open>async\<close> functions on Node's single thread. A
  call runs the body up to its first \<open>await\<close> and returns to the caller; the rest of
  the body is a continuation that runs later, from the microtask queue (first in, first
  out) when the awaited promise is already settled, as for every method of the record
  store, or after the event that settles it, as for \<open>fetch\<close>, \<open>response.buffer()\<close>
  and \<open>zipper.createZip\<close>. Code between two awaits runs without interruption.

  Each stretch of code between awaits is one function below, named after its method and
  headed by its source lines. A \<open>task\<close> names a continuation with the local variables
  it still needs; \<open>io_wait\<close> names an operation in flight.
\<close>

datatype 'a outcome = Resolved 'a | Rejected string

datatype task =
    DownloadBatch_loop nat "PdfFile option" "PdfFile list"
  | DownloadFile_register nat PdfFile
  | DownloadFile_onFetch nat PdfFile string "bool outcome"
  | DownloadFile_onBuffer nat PdfFile string "nat outcome"
  | DownloadFile_afterProgress nat PdfFile string
  | DownloadFile_afterCompleted nat PdfFile string
  | DownloadFile_afterSize nat PdfFile
  | DownloadFile_afterGetJob nat PdfFile "DownloadJob option"
  | DownloadFile_afterIncrement nat PdfFile DownloadJob
  | DownloadFile_finish nat PdfFile
  | DownloadFile_afterReady nat PdfFile
  | DownloadFile_afterFailed nat PdfFile
  | CompleteJob_afterGetJob nat "DownloadJob option" task
  | CompleteJob_afterCreatingZip nat DownloadJob task
  | CompleteJob_afterGetFiles nat DownloadJob "PdfFile list" task
  | CompleteJob_onZip nat DownloadJob "string list" string "nat outcome" task
  | CompleteJob_afterCompleted nat DownloadJob "string list" string string task
  | CompleteJob_afterArchive nat DownloadJob "string list" task
  | CompleteJob_afterFailed nat string task
  | CompleteJob_return task

datatype io_wait =
    AwaitFetch nat PdfFile string
  | AwaitBuffer nat PdfFile string
  | AwaitZip nat DownloadJob "string list" string task

text \<open>
  The whole state: the two singletons \<open>storage\<close> and \<open>downloader\<close>, the staging
  directory \<open>temp\<close> (file names with their sizes, in the order \<open>readdirSync\<close> lists
  them, taken to be the order of creation), the microtask queue and the operations in
  flight.
\<close>

record world =
  storage :: MemStorage
  downloader :: Downloader
  tempDir :: "(string \<times> nat) list"
  microtasks :: "task list"
  awaiting :: "io_wait list"

definition newWorld :: world where
  "newWorld = \<lparr>storage = newMemStorage, downloader = newDownloader, tempDir = [],
     microtasks = [], awaiting = []\<rparr>"

text \<open>\<open>await storage.m(...)\<close> with the result dropped: the store changes at the call.\<close>

definition withStorage :: "(MemStorage \<Rightarrow> 'a \<times> MemStorage) \<Rightarrow> world \<Rightarrow> world" where
  "withStorage m w = w\<lparr>storage := snd (m (storage w))\<rparr>"

text \<open>Suspending at an await of a settled promise, and starting an operation.\<close>

definition suspend :: "task \<Rightarrow> world \<Rightarrow> world" where
  "suspend t w = w\<lparr>microtasks := microtasks w @ [t]\<rparr>"

definition startIO :: "io_wait \<Rightarrow> world \<Rightarrow> world" where
  "startIO x w = w\<lparr>awaiting := awaiting w @ [x]\<rparr>"

definition activeDelete :: "nat \<Rightarrow> world \<Rightarrow> world" where
  "activeDelete i w =
     w\<lparr>downloader := (downloader w)\<lparr>activeDownloads :=
          AList.delete i (activeDownloads (downloader w))\<rparr>\<rparr>"

subsection \<open>downloadFile up to its first await (lines 87-90)\<close>

definition downloadFile :: "nat \<Rightarrow> PdfFile \<Rightarrow> world \<Rightarrow> world" where
  "downloadFile jobId file w =
     suspend (DownloadFile_register jobId file)
       (withStorage (updatePdfFile (pdf_id file)
          (noPdfFields\<lparr>p_status := Some Downloading, p_progress := Some 0\<rparr>)) w)"

subsection \<open>processQueue (lines 66-80)\<close>

text \<open>
  The function has no await: the loop runs to its end at the call. The call
  \<open>this.downloadFile(jobId, file)\<close> is not awaited and returns at the first await of
  \<open>downloadFile\<close>.
\<close>

function processQueue :: "world \<Rightarrow> world" where
  "processQueue w =
     (if length (activeDownloads (downloader w)) < maxConcurrentDownloads (downloader w) \<and>
         queue (downloader w) \<noteq> []
      then (case queue (downloader w) of
              [] \<Rightarrow> w
            | (jobId, file) # rest \<Rightarrow>
                (let w1 = w\<lparr>downloader := (downloader w)\<lparr>queue := rest\<rparr>\<rparr>
                 in if jobId \<in> cancelledJobs (downloader w1) then processQueue w1
                    else processQueue (downloadFile jobId file w1)))
      else w)"
  by pat_completeness auto
termination
  by (relation "measure (\<lambda>w. length (queue (downloader w)))")
     (auto simp: downloadFile_def suspend_def withStorage_def)

declare processQueue.simps [simp del]

subsection \<open>downloadBatch (lines 46-61)\<close>

definition downloadBatch :: "nat \<Rightarrow> PdfFile list \<Rightarrow> world \<Rightarrow> world" where
  "downloadBatch jobId files w =
     suspend (DownloadBatch_loop jobId None files)
       (withStorage (updateDownloadJob jobId (noJobFields\<lparr>q_status := Some ''in progress''\<rparr>)) w)"

definition queuePush :: "nat \<times> PdfFile \<Rightarrow> world \<Rightarrow> world" where
  "queuePush e w = w\<lparr>downloader := (downloader w)\<lparr>queue := queue (downloader w) @ [e]\<rparr>\<rparr>"

text \<open>
  The continuation inside the \<open>for\<close> loop: \<open>pushed\<close> is the file whose status update
  was awaited (line 53) and is now pushed (line 56); \<open>files\<close> are the files still to
  come. After the last file, line 60 calls \<open>processQueue\<close>.
\<close>

definition downloadBatch_loop :: "nat \<Rightarrow> PdfFile option \<Rightarrow> PdfFile list \<Rightarrow> world \<Rightarrow> world" where
  "downloadBatch_loop jobId pushed files w =
     (let w1 = (case pushed of None \<Rightarrow> w | Some file \<Rightarrow> queuePush (jobId, file) w)
      in case files of
           [] \<Rightarrow> processQueue w1
         | file # rest \<Rightarrow>
             suspend (DownloadBatch_loop jobId (Some file) rest)
               (withStorage (updatePdfFile (pdf_id file)
                  (noPdfFields\<lparr>p_status := Some Queued\<rparr>)) w1))"

subsection \<open>downloadFile after its first await (lines 92-203)\<close>

text \<open>Lines 92-110: the staging file, the registration in \<open>activeDownloads\<close>, the fetch.\<close>

definition downloadFile_register :: "nat \<Rightarrow> nat \<Rightarrow> PdfFile \<Rightarrow> world \<Rightarrow> world" where
  "downloadFile_register now jobId file w =
     (let tempFilePath = showNat now @ ''-'' @ pdf_filename file;
          w1 = w\<lparr>tempDir := AList.update tempFilePath 0 (tempDir w)\<rparr>;
          w2 = w1\<lparr>downloader := (downloader w1)\<lparr>activeDownloads :=
                  AList.update (pdf_id file)
                    \<lparr>ad_jobId = jobId, ad_fileId = pdf_id file, bytesDownloaded = 0,
                     startTime = now\<rparr>
                    (activeDownloads (downloader w1))\<rparr>\<rparr>
      in startIO (AwaitFetch jobId file tempFilePath) w2)"

text \<open>Lines 192-196, the catch block up to its await.\<close>

definition downloadFile_catch :: "nat \<Rightarrow> PdfFile \<Rightarrow> world \<Rightarrow> world" where
  "downloadFile_catch jobId file w =
     suspend (DownloadFile_afterFailed jobId file)
       (withStorage (updatePdfFile (pdf_id file)
          (noPdfFields\<lparr>p_status := Some Failed, p_progress := Some 0\<rparr>)) w)"

text \<open>Lines 198-202, and the same two statements at lines 187-191.\<close>

definition downloadFile_finish :: "nat \<Rightarrow> PdfFile \<Rightarrow> world \<Rightarrow> world" where
  "downloadFile_finish jobId file w = processQueue (activeDelete (pdf_id file) w)"

text \<open>
  Lines 110-131: the response of the fetch, or its rejection. \<open>unlinkSync\<close> throws
  when the staging file is gone.
\<close>

definition downloadFile_onFetch ::
  "nat \<Rightarrow> PdfFile \<Rightarrow> string \<Rightarrow> bool outcome \<Rightarrow> world \<Rightarrow> world" where
  "downloadFile_onFetch jobId file tempFilePath response w =
     (case response of
        Rejected msg \<Rightarrow> downloadFile_catch jobId file w
      | Resolved ok \<Rightarrow>
          if \<not> ok then downloadFile_catch jobId file w
          else if jobId \<in> cancelledJobs (downloader w)
          then (if map_of (tempDir w) tempFilePath = None then downloadFile_catch jobId file w
                else suspend (DownloadFile_afterReady jobId file)
                       (withStorage (updatePdfFile (pdf_id file)
                          (noPdfFields\<lparr>p_status := Some Ready, p_progress := Some 0\<rparr>))
                          (w\<lparr>tempDir := AList.delete tempFilePath (tempDir w)\<rparr>)))
          else startIO (AwaitBuffer jobId file tempFilePath) w)"

text \<open>Lines 124-127.\<close>

definition downloadFile_afterReady :: "nat \<Rightarrow> PdfFile \<Rightarrow> world \<Rightarrow> world" where
  "downloadFile_afterReady jobId file w = activeDelete (pdf_id file) w"

text \<open>Lines 131-147: the body has arrived (\<open>buffer.length\<close> bytes), or reading it failed.\<close>

definition downloadFile_onBuffer ::
  "nat \<Rightarrow> PdfFile \<Rightarrow> string \<Rightarrow> nat outcome \<Rightarrow> world \<Rightarrow> world" where
  "downloadFile_onBuffer jobId file tempFilePath buffer w =
     (case buffer of
        Rejected msg \<Rightarrow> downloadFile_catch jobId file w
      | Resolved len \<Rightarrow>
          (let w1 = w\<lparr>tempDir := AList.update tempFilePath len (tempDir w)\<rparr>;
               w2 = (case map_of (activeDownloads (downloader w1)) (pdf_id file) of
                       None \<Rightarrow> w1
                     | Some activeDownload \<Rightarrow>
                         w1\<lparr>downloader := (downloader w1)\<lparr>activeDownloads :=
                              AList.update (pdf_id file)
                                (activeDownload\<lparr>bytesDownloaded := len\<rparr>)
                                (activeDownloads (downloader w1))\<rparr>\<rparr>)
           in suspend (DownloadFile_afterProgress jobId file tempFilePath)
                (withStorage (updatePdfFile (pdf_id file)
                   (noPdfFields\<lparr>p_progress := Some 100\<rparr>)) w2)))"

text \<open>Line 150.\<close>

definition downloadFile_afterProgress :: "nat \<Rightarrow> PdfFile \<Rightarrow> string \<Rightarrow> world \<Rightarrow> world" where
  "downloadFile_afterProgress jobId file tempFilePath w =
     suspend (DownloadFile_afterCompleted jobId file tempFilePath)
       (withStorage (updatePdfFile (pdf_id file)
          (noPdfFields\<lparr>p_status := Some Completed, p_progress := Some 100\<rparr>)) w)"

text \<open>Line 173.\<close>

definition downloadFile_getJob :: "nat \<Rightarrow> PdfFile \<Rightarrow> world \<Rightarrow> world" where
  "downloadFile_getJob jobId file w =
     suspend (DownloadFile_afterGetJob jobId file (getDownloadJob jobId (storage w))) w"

text \<open>
  Lines 152-173. \<open>statSync\<close> throws when the staging file is gone, which the catch
  block of \<open>downloadFile\<close> receives.
\<close>

definition downloadFile_afterCompleted :: "nat \<Rightarrow> PdfFile \<Rightarrow> string \<Rightarrow> world \<Rightarrow> world" where
  "downloadFile_afterCompleted jobId file tempFilePath w =
     (case map_of (tempDir w) tempFilePath of
        None \<Rightarrow> downloadFile_catch jobId file w
      | Some fileSizeInBytes \<Rightarrow>
          (let fileSize = formatSize fileSizeInBytes
           in if pdf_size file = ''Unknown''
              then suspend (DownloadFile_afterSize jobId file)
                     (withStorage (updatePdfFile (pdf_id file)
                        (noPdfFields\<lparr>p_size := Some fileSize\<rparr>)) w)
              else downloadFile_getJob jobId file w))"

text \<open>
  Lines 174-178, with the job that line 173 read. \<open>job.size || "Calculating..."\<close>
  takes the default for a missing and for an empty size.
\<close>

definition downloadFile_afterGetJob ::
  "nat \<Rightarrow> PdfFile \<Rightarrow> DownloadJob option \<Rightarrow> world \<Rightarrow> world" where
  "downloadFile_afterGetJob jobId file found w =
     (case found of
        None \<Rightarrow> downloadFile_finish jobId file w
      | Some job \<Rightarrow>
          suspend (DownloadFile_afterIncrement jobId file job)
            (withStorage (updateDownloadJob jobId
               (noJobFields\<lparr>q_downloadedFiles := Some (job_downloadedFiles job + 1),
                  q_size := Some (Some (case job_size job of
                                          None \<Rightarrow> ''Calculating...''
                                        | Some sz \<Rightarrow> if sz = [] then ''Calculating...'' else sz))\<rparr>))
               w))"

subsection \<open>completeJob (lines 211-339)\<close>

text \<open>
  \<open>completeJob\<close> is awaited by its caller: \<open>k\<close> is the caller's continuation, resumed
  when the promise of \<open>completeJob\<close> resolves. The function catches every error of its
  body, so the promise never rejects.
\<close>

text \<open>Line 213.\<close>

definition completeJob :: "nat \<Rightarrow> task \<Rightarrow> world \<Rightarrow> world" where
  "completeJob jobId k w =
     suspend (CompleteJob_afterGetJob jobId (getDownloadJob jobId (storage w)) k) w"

text \<open>Lines 323-330, the catch block up to its first await, with the error's message.\<close>

definition completeJob_catch :: "nat \<Rightarrow> nat \<Rightarrow> string \<Rightarrow> task \<Rightarrow> world \<Rightarrow> world" where
  "completeJob_catch now jobId msg k w =
     suspend (CompleteJob_afterFailed jobId msg k)
       (withStorage (updateDownloadJob jobId
          (noJobFields\<lparr>q_status := Some ''failed'', q_completedAt := Some (Some now)\<rparr>)) w)"

text \<open>Lines 332-338.\<close>

definition completeJob_afterFailed :: "nat \<Rightarrow> nat \<Rightarrow> string \<Rightarrow> task \<Rightarrow> world \<Rightarrow> world" where
  "completeJob_afterFailed now jobId msg k w =
     suspend (CompleteJob_return k)
       (withStorage (createHistoryEntry now ''Download failed''
          (''Failed to complete download job '' @ showNat jobId @ '': '' @ msg) 0) w)"

text \<open>Lines 214-219.\<close>

definition completeJob_afterGetJob ::
  "nat \<Rightarrow> nat \<Rightarrow> DownloadJob option \<Rightarrow> task \<Rightarrow> world \<Rightarrow> world" where
  "completeJob_afterGetJob now jobId found k w =
     (case found of
        None \<Rightarrow> completeJob_catch now jobId (''Job '' @ showNat jobId @ '' not found'') k w
      | Some job \<Rightarrow>
          suspend (CompleteJob_afterCreatingZip jobId job k)
            (withStorage (updateDownloadJob jobId
               (noJobFields\<lparr>q_status := Some ''creating zip''\<rparr>)) w))"

text \<open>Line 222.\<close>

definition completeJob_afterCreatingZip :: "nat \<Rightarrow> DownloadJob \<Rightarrow> task \<Rightarrow> world \<Rightarrow> world" where
  "completeJob_afterCreatingZip jobId job k w =
     suspend (CompleteJob_afterGetFiles jobId job (getPdfFiles (storage w)) k) w"

text \<open>The filter of lines 223-247: does the file belong to the job, by the job's name?\<close>

definition belongsToJob :: "DownloadJob \<Rightarrow> PdfFile \<Rightarrow> bool" where
  "belongsToJob job file =
     (case matchSeries (job_name job) of
        Some series \<Rightarrow>
          (case matchPrefix3 (pdf_filename file) of
             Some fileSeries \<Rightarrow> fileSeries = series
           | None \<Rightarrow> False)
      | None \<Rightarrow>
          (case matchRange (job_name job) of
             Some (startNum, endNum) \<Rightarrow>
               (case matchFirstNumber (pdf_filename file) of
                  Some fileNum \<Rightarrow>
                    parseInt fileNum \<ge> parseInt startNum \<and> parseInt fileNum \<le> parseInt endNum
                | None \<Rightarrow> False)
           | None \<Rightarrow> False))"

text \<open>
  Lines 256-272: for each completed file, the first listed staging file whose name
  contains the file's name and whose size is not zero.
\<close>

definition resolveTempFiles :: "(string \<times> nat) list \<Rightarrow> PdfFile list \<Rightarrow> string list" where
  "resolveTempFiles dir completedFiles =
     List.map_filter
       (\<lambda>file. find (\<lambda>tempFile. case map_of dir tempFile of None \<Rightarrow> False | Some sz \<Rightarrow> sz > 0)
                 (filter (\<lambda>tempFile. str_includes tempFile (pdf_filename file)) (map fst dir)))
       completedFiles"

text \<open>Lines 223-282.\<close>

definition completeJob_afterGetFiles ::
  "nat \<Rightarrow> nat \<Rightarrow> DownloadJob \<Rightarrow> PdfFile list \<Rightarrow> task \<Rightarrow> world \<Rightarrow> world" where
  "completeJob_afterGetFiles now jobId job allFiles k w =
     (let jobFiles = filter (belongsToJob job) allFiles;
          completedFiles = filter (\<lambda>file. pdf_status file = Completed) jobFiles;
          zipFileName = ''jfk-docs-'' @ toLowerCase (replaceSpaces (job_name job)) @ ''.zip'';
          tempFiles = resolveTempFiles (tempDir w) completedFiles
      in if length tempFiles = 0
         then completeJob_catch now jobId ''No files found to include in zip'' k w
         else startIO (AwaitZip jobId job tempFiles zipFileName k) w)"

text \<open>
  Lines 282-304: the archive is written (\<open>statSync\<close> gives its size in bytes), or
  \<open>createZip\<close> rejected with a message.
\<close>

definition completeJob_onZip ::
  "nat \<Rightarrow> nat \<Rightarrow> DownloadJob \<Rightarrow> string list \<Rightarrow> string \<Rightarrow> nat outcome \<Rightarrow> task \<Rightarrow> world \<Rightarrow> world" where
  "completeJob_onZip now jobId job tempFiles zipFileName zipped k w =
     (case zipped of
        Rejected msg \<Rightarrow> completeJob_catch now jobId msg k w
      | Resolved zipSizeInBytes \<Rightarrow>
          (let zipSize = formatSize zipSizeInBytes
           in suspend (CompleteJob_afterCompleted jobId job tempFiles zipFileName zipSize k)
                (withStorage (updateDownloadJob jobId
                   (noJobFields\<lparr>q_status := Some ''completed'',
                      q_completedAt := Some (Some now), q_size := Some (Some zipSize)\<rparr>)) w)))"

text \<open>Lines 306-312.\<close>

definition completeJob_afterCompleted ::
  "nat \<Rightarrow> nat \<Rightarrow> DownloadJob \<Rightarrow> string list \<Rightarrow> string \<Rightarrow> string \<Rightarrow> task \<Rightarrow> world \<Rightarrow> world" where
  "completeJob_afterCompleted now jobId job tempFiles zipFileName zipSize k w =
     suspend (CompleteJob_afterArchive jobId job tempFiles k)
       (withStorage (createCompletedDownload now zipFileName
          (showNat (length tempFiles) @ '' PDFs ('' @ job_name job @ '')'')
          zipSize (''downloads/'' @ zipFileName)) w)"

text \<open>Lines 314-319.\<close>

definition completeJob_afterArchive ::
  "nat \<Rightarrow> nat \<Rightarrow> DownloadJob \<Rightarrow> string list \<Rightarrow> task \<Rightarrow> world \<Rightarrow> world" where
  "completeJob_afterArchive now jobId job tempFiles k w =
     suspend (CompleteJob_return k)
       (withStorage (createHistoryEntry now ''Download completed''
          (''Completed download job: '' @ job_name job @ '' with '' @
             showNat (length tempFiles) @ '' files'')
          (length tempFiles)) w)"

subsection \<open>downloadFile, lines 180-185\<close>

definition downloadFile_afterIncrement ::
  "nat \<Rightarrow> PdfFile \<Rightarrow> DownloadJob \<Rightarrow> world \<Rightarrow> world" where
  "downloadFile_afterIncrement jobId file job w =
     (if job_downloadedFiles job + 1 \<ge> job_totalFiles job
      then completeJob jobId (DownloadFile_finish jobId file) w
      else downloadFile_finish jobId file w)"

subsection \<open>cancelDownload (lines 345-360)\<close>

text \<open>Nothing follows the await of the last statement.\<close>

definition cancelDownload :: "nat \<Rightarrow> nat \<Rightarrow> world \<Rightarrow> world" where
  "cancelDownload now jobId w =
     (let w1 = w\<lparr>downloader := (downloader w)\<lparr>cancelledJobs :=
                  insert jobId (cancelledJobs (downloader w))\<rparr>\<rparr>;
          w2 = w1\<lparr>downloader := (downloader w1)\<lparr>queue :=
                  filter (\<lambda>item. fst item \<noteq> jobId) (queue (downloader w1))\<rparr>\<rparr>
      in withStorage (updateDownloadJob jobId
           (noJobFields\<lparr>q_status := Some ''cancelled'', q_completedAt := Some (Some now)\<rparr>)) w2)"

subsection \<open>The event loop\<close>

text \<open>Running one continuation; \<open>now\<close> is the clock (\<open>Date.now()\<close>, \<open>new Date()\<close>).\<close>

fun run_task :: "nat \<Rightarrow> task \<Rightarrow> world \<Rightarrow> world" where
  "run_task now (DownloadBatch_loop jobId pushed files) w = downloadBatch_loop jobId pushed files w"
| "run_task now (DownloadFile_register jobId file) w = downloadFile_register now jobId file w"
| "run_task now (DownloadFile_onFetch jobId file tmp r) w = downloadFile_onFetch jobId file tmp r w"
| "run_task now (DownloadFile_onBuffer jobId file tmp r) w = downloadFile_onBuffer jobId file tmp r w"
| "run_task now (DownloadFile_afterProgress jobId file tmp) w =
     downloadFile_afterProgress jobId file tmp w"
| "run_task now (DownloadFile_afterCompleted jobId file tmp) w =
     downloadFile_afterCompleted jobId file tmp w"
| "run_task now (DownloadFile_afterSize jobId file) w = downloadFile_getJob jobId file w"
| "run_task now (DownloadFile_afterGetJob jobId file found) w =
     downloadFile_afterGetJob jobId file found w"
| "run_task now (DownloadFile_afterIncrement jobId file job) w =
     downloadFile_afterIncrement jobId file job w"
| "run_task now (DownloadFile_finish jobId file) w = downloadFile_finish jobId file w"
| "run_task now (DownloadFile_afterReady jobId file) w = downloadFile_afterReady jobId file w"
| "run_task now (DownloadFile_afterFailed jobId file) w = downloadFile_finish jobId file w"
| "run_task now (CompleteJob_afterGetJob jobId found k) w =
     completeJob_afterGetJob now jobId found k w"
| "run_task now (CompleteJob_afterCreatingZip jobId job k) w =
     completeJob_afterCreatingZip jobId job k w"
| "run_task now (CompleteJob_afterGetFiles jobId job allFiles k) w =
     completeJob_afterGetFiles now jobId job allFiles k w"
| "run_task now (CompleteJob_onZip jobId job tempFiles zipFileName r k) w =
     completeJob_onZip now jobId job tempFiles zipFileName r k w"
| "run_task now (CompleteJob_afterCompleted jobId job tempFiles zipFileName zipSize k) w =
     completeJob_afterCompleted now jobId job tempFiles zipFileName zipSize k w"
| "run_task now (CompleteJob_afterArchive jobId job tempFiles k) w =
     completeJob_afterArchive now jobId job tempFiles k w"
| "run_task now (CompleteJob_afterFailed jobId msg k) w = completeJob_afterFailed now jobId msg k w"
| "run_task now (CompleteJob_return k) w = suspend k w"

text \<open>
  Draining the microtask queue: the first continuation runs, what it suspends goes to
  the end of the queue, until the queue is empty.
\<close>

partial_function (option) drain :: "nat \<Rightarrow> world \<Rightarrow> world option" where
  "drain now w =
     (case microtasks w of
        [] \<Rightarrow> Some w
      | t # ts \<Rightarrow> drain now (run_task now t (w\<lparr>microtasks := ts\<rparr>)))"

declare drain.simps [code]

text \<open>
  An event from outside settles the \<open>i\<close>-th operation in flight; its continuation
  joins the microtask queue.
\<close>

datatype io_event =
    FetchSettled nat "bool outcome"
  | BufferSettled nat "nat outcome"
  | ZipSettled nat "nat outcome"

definition removeAt :: "nat \<Rightarrow> 'a list \<Rightarrow> 'a list" where
  "removeAt i xs = take i xs @ drop (Suc i) xs"

fun settle :: "io_event \<Rightarrow> world \<Rightarrow> world option" where
  "settle (FetchSettled i r) w =
     (if i < length (awaiting w)
      then (case awaiting w ! i of
              AwaitFetch jobId file tmp \<Rightarrow>
                Some (suspend (DownloadFile_onFetch jobId file tmp r)
                        (w\<lparr>awaiting := removeAt i (awaiting w)\<rparr>))
            | _ \<Rightarrow> None)
      else None)"
| "settle (BufferSettled i r) w =
     (if i < length (awaiting w)
      then (case awaiting w ! i of
              AwaitBuffer jobId file tmp \<Rightarrow>
                Some (suspend (DownloadFile_onBuffer jobId file tmp r)
                        (w\<lparr>awaiting := removeAt i (awaiting w)\<rparr>))
            | _ \<Rightarrow> None)
      else None)"
| "settle (ZipSettled i r) w =
     (if i < length (awaiting w)
      then (case awaiting w ! i of
              AwaitZip jobId job tempFiles zipFileName k \<Rightarrow>
                Some (suspend (CompleteJob_onZip jobId job tempFiles zipFileName r k)
                        (w\<lparr>awaiting := removeAt i (awaiting w)\<rparr>))
            | _ \<Rightarrow> None)
      else None)"

text \<open>One turn of the event loop: an event, then the microtasks it makes runnable.\<close>

definition turn :: "nat \<Rightarrow> io_event \<Rightarrow> world \<Rightarrow> world option" where
  "turn now ev w = (case settle ev w of None \<Rightarrow> None | Some w1 \<Rightarrow> drain now w1)"

section \<open>Descriptions used in the statements\<close>

text \<open>The entries of the pending queue whose job is not cancelled, in queue order.\<close>

definition startable :: "world \<Rightarrow> (nat \<times> PdfFile) list" where
  "startable w = filter (\<lambda>item. fst item \<notin> cancelledJobs (downloader w)) (queue (downloader w))"

text \<open>The store after line 90 has run for each of the given entries.\<close>

definition markDownloading :: "(nat \<times> PdfFile) list \<Rightarrow> MemStorage \<Rightarrow> MemStorage" where
  "markDownloading items st =
     fold (\<lambda>item st. snd (updatePdfFile (pdf_id (snd item))
             (noPdfFields\<lparr>p_status := Some Downloading, p_progress := Some 0\<rparr>) st)) items st"

text \<open>The store after line 53 has run for each of the given files.\<close>

definition markQueued :: "PdfFile list \<Rightarrow> MemStorage \<Rightarrow> MemStorage" where
  "markQueued files st =
     fold (\<lambda>file st. snd (updatePdfFile (pdf_id file) (noPdfFields\<lparr>p_status := Some Queued\<rparr>) st))
       files st"


text \<open>
  The staged artifacts that \<open>completeJob\<close> resolves for a job (lines 222-272) and the
  name of its archive (line 253).
\<close>

definition jobArtifacts :: "DownloadJob \<Rightarrow> world \<Rightarrow> string list" where
  "jobArtifacts job w =
     resolveTempFiles (tempDir w)
       (filter (\<lambda>file. pdf_status file = Completed)
          (filter (belongsToJob job) (getPdfFiles (storage w))))"

definition zipFileNameOf :: "DownloadJob \<Rightarrow> string" where
  "zipFileNameOf job = ''jfk-docs-'' @ toLowerCase (replaceSpaces (job_name job)) @ ''.zip''"

text \<open>The records that \<open>completeJob\<close> creates, under the id \<open>i\<close> at the time \<open>now\<close>.\<close>

definition failureEntry :: "nat \<Rightarrow> nat \<Rightarrow> nat \<Rightarrow> string \<Rightarrow> History" where
  "failureEntry i now jobId msg =
     \<lparr>h_id = i, h_date = now, h_action = ''Download failed'',
      h_details = ''Failed to complete download job '' @ showNat jobId @ '': '' @ msg,
      h_filesCount = 0\<rparr>"

definition completionEntry :: "nat \<Rightarrow> nat \<Rightarrow> DownloadJob \<Rightarrow> string list \<Rightarrow> History" where
  "completionEntry i now job tempFiles =
     \<lparr>h_id = i, h_date = now, h_action = ''Download completed'',
      h_details = ''Completed download job: '' @ job_name job @ '' with '' @
         showNat (length tempFiles) @ '' files'',
      h_filesCount = length tempFiles\<rparr>"

definition archiveRecord ::
  "nat \<Rightarrow> nat \<Rightarrow> DownloadJob \<Rightarrow> string list \<Rightarrow> string \<Rightarrow> nat \<Rightarrow> CompletedDownload" where
  "archiveRecord i now job tempFiles zipFileName zipSizeInBytes =
     \<lparr>cd_id = i, cd_filename = zipFileName,
      cd_contents = showNat (length tempFiles) @ '' PDFs ('' @ job_name job @ '')'',
      cd_size = formatSize zipSizeInBytes, cd_path = ''downloads/'' @ zipFileName,
      cd_date = now\<rparr>"

text \<open>
  A failed archiving step, from the state \<open>w\<close> to the state \<open>wF\<close>: the job is
  \<open>failed\<close> with the completion timestamp, the history has the failure entry under
  the next id, and nothing else of the store and nothing of the downloader has changed.
\<close>

definition archivingFailed ::
  "nat \<Rightarrow> nat \<Rightarrow> string \<Rightarrow> DownloadJob \<Rightarrow> world \<Rightarrow> world \<Rightarrow> bool" where
  "archivingFailed now jobId msg job w wF =
     (getDownloadJob jobId (storage wF) =
        Some (job\<lparr>job_status := ''failed'', job_completedAt := Some now\<rparr>) \<and>
      historyEntries (storage wF) =
        AList.update (historyCounter (storage w))
          (failureEntry (historyCounter (storage w)) now jobId msg)
          (historyEntries (storage w)) \<and>
      completedDownloads (storage wF) = completedDownloads (storage w) \<and>
      pdfFiles (storage wF) = pdfFiles (storage w) \<and>
      downloader wF = downloader w \<and>
      tempDir wF = tempDir w \<and>
      microtasks wF = [])"

text \<open>
  A successful archiving step, from the state \<open>w\<close> to the state \<open>wS\<close>: the job is
  \<open>completed\<close> with the completion timestamp and the archive's size, the archive
  records have a new record under the next id, the history has the completion entry
  under the next id.
\<close>

definition archivingSucceeded ::
  "nat \<Rightarrow> nat \<Rightarrow> DownloadJob \<Rightarrow> DownloadJob \<Rightarrow> string list \<Rightarrow> string \<Rightarrow> nat \<Rightarrow> world \<Rightarrow> world \<Rightarrow> bool" where
  "archivingSucceeded now jobId job snapshot tempFiles zipFileName zipSizeInBytes w wS =
     (getDownloadJob jobId (storage wS) =
        Some (job\<lparr>job_status := ''completed'', job_completedAt := Some now,
                  job_size := Some (formatSize zipSizeInBytes)\<rparr>) \<and>
      completedDownloads (storage wS) =
        AList.update (completedDownloadsCounter (storage w))
          (archiveRecord (completedDownloadsCounter (storage w)) now snapshot tempFiles zipFileName
             zipSizeInBytes)
          (completedDownloads (storage w)) \<and>
      historyEntries (storage wS) =
        AList.update (historyCounter (storage w))
          (completionEntry (historyCounter (storage w)) now snapshot tempFiles)
          (historyEntries (storage w)) \<and>
      microtasks wS = [])"

text \<open>The downloaded-file counters of the jobs, by job id.\<close>

definition counters :: "world \<Rightarrow> (nat \<times> nat) list" where
  "counters w = map (\<lambda>item. (fst item, job_downloadedFiles (snd item))) (downloadJobs (storage w))"

text \<open>
  The success path of \<open>downloadFile\<close> from the arrival of the body to the await of
  line 175: four continuations, and one more when the file's size was unknown (line
  169). \<open>job.size || "Calculating..."\<close> is \<open>sizeOrDefault\<close>.
\<close>

definition successTicks :: "PdfFile \<Rightarrow> nat" where
  "successTicks file = (if pdf_size file = ''Unknown'' then 5 else 4)"

definition sizeOrDefault :: "DownloadJob \<Rightarrow> string" where
  "sizeOrDefault job =
     (case job_size job of
        None \<Rightarrow> ''Calculating...''
      | Some sz \<Rightarrow> if sz = [] then ''Calculating...'' else sz)"

section \<open>Scenarios\<close>

text \<open>
  A file as the scan route stores it (routes.ts, lines 68-73) and a job as the download
  routes create it (lines 178-182 and 239-243), on the store of a state.
\<close>

definition addFile :: "string \<Rightarrow> world \<Rightarrow> world" where
  "addFile fname w =
     withStorage (createPdfFile 0 (''https://example.org/'' @ fname) fname ''Unknown'' Ready) w"

definition addJob :: "string \<Rightarrow> nat \<Rightarrow> world \<Rightarrow> world" where
  "addJob nm n w = withStorage (createDownloadJob 0 nm n ''queued'') w"

text \<open>Several turns of the event loop, and the first \<open>n\<close> continuations of one turn.\<close>

fun turns :: "nat \<Rightarrow> io_event list \<Rightarrow> world \<Rightarrow> world option" where
  "turns now [] w = Some w"
| "turns now (ev # evs) w = (case turn now ev w of None \<Rightarrow> None | Some w1 \<Rightarrow> turns now evs w1)"

fun ticks :: "nat \<Rightarrow> nat \<Rightarrow> world \<Rightarrow> world" where
  "ticks 0 now w = w"
| "ticks (Suc n) now w =
     (case microtasks w of
        [] \<Rightarrow> w
      | t # ts \<Rightarrow> ticks n now (run_task now t (w\<lparr>microtasks := ts\<rparr>)))"

text \<open>What the scenarios observe of a state.\<close>

definition fileStatuses :: "world \<Rightarrow> pdfStatusEnum list" where
  "fileStatuses w = map pdf_status (getPdfFiles (storage w))"

fun transferOf :: "io_wait \<Rightarrow> nat option" where
  "transferOf (AwaitFetch jobId file tmp) = Some (pdf_id file)"
| "transferOf (AwaitBuffer jobId file tmp) = Some (pdf_id file)"
| "transferOf (AwaitZip jobId job tempFiles zipFileName k) = None"

fun zipOf :: "io_wait \<Rightarrow> nat option" where
  "zipOf (AwaitFetch jobId file tmp) = None"
| "zipOf (AwaitBuffer jobId file tmp) = None"
| "zipOf (AwaitZip jobId job tempFiles zipFileName k) = Some jobId"

text \<open>The file ids of the transfers in flight, and the job ids of the archives in creation.\<close>

definition transfersInFlight :: "world \<Rightarrow> nat list" where
  "transfersInFlight w = List.map_filter transferOf (awaiting w)"

definition zipsInFlight :: "world \<Rightarrow> nat list" where
  "zipsInFlight w = List.map_filter zipOf (awaiting w)"

text \<open>Status, downloaded-file counter and total of a job.\<close>

definition jobView :: "nat \<Rightarrow> world \<Rightarrow> (string \<times> nat \<times> nat) option" where
  "jobView i w =
     map_option (\<lambda>j. (job_status j, job_downloadedFiles j, job_totalFiles j))
       (getDownloadJob i (storage w))"

definition archiveNames :: "world \<Rightarrow> string list" where
  "archiveNames w = map (cd_filename \<circ> snd) (completedDownloads (storage w))"

definition historyActions :: "world \<Rightarrow> string list" where
  "historyActions w = map (h_action \<circ> snd) (historyEntries (storage w))"

subsection \<open>One batch of four files, capacity three\<close>

definition fourFiles :: world where
  "fourFiles =
     addFile ''107.pdf'' (addFile ''106.pdf'' (addFile ''105.pdf'' (addFile ''104.pdf'' newWorld)))"

text \<open>Job 1 with the four files is submitted, and the microtasks run.\<close>

definition batchOfFour :: "world option" where
  "batchOfFour =
     (let w = addJob ''JFK Records 104-107'' 4 fourFiles
      in drain 1 (downloadBatch 1 (getPdfFiles (storage w)) w))"

subsection \<open>A job cancelled while its entries wait in the queue\<close>

definition fiveFiles :: world where
  "fiveFiles = addFile ''108.pdf'' fourFiles"

text \<open>
  Job 1 (files 1 to 3) fills the capacity; job 2 (files 4 and 5) is submitted and its
  entries wait in the queue.
\<close>

definition secondJobQueued :: "world option" where
  "secondJobQueued =
     (let w = addJob ''JFK Records 107-108'' 2 (addJob ''JFK Records 104-106'' 3 fiveFiles)
      in Option.bind (drain 1 (downloadBatch 1 (take 3 (getPdfFiles (storage w))) w))
           (\<lambda>w1. drain 2 (downloadBatch 2 (drop 3 (getPdfFiles (storage w1))) w1)))"

text \<open>Job 2 is cancelled before any of its entries is dequeued.\<close>

definition secondJobCancelled :: "world option" where
  "secondJobCancelled = Option.bind secondJobQueued (\<lambda>w. drain 3 (cancelDownload 3 2 w))"

text \<open>The three transfers of job 1 then succeed.\<close>

definition firstJobDownloaded :: "world option" where
  "firstJobDownloaded =
     Option.bind secondJobCancelled
       (turns 4 [FetchSettled 0 (Resolved True), FetchSettled 0 (Resolved True),
                 FetchSettled 0 (Resolved True), BufferSettled 0 (Resolved 2048),
                 BufferSettled 0 (Resolved 2048), BufferSettled 0 (Resolved 2048)])"

subsection \<open>A job that receives more files than its total\<close>

text \<open>
  Two files whose names start with the number 104 and a job named for the range
  104-104 with a total of one file, as the download route creates it for the first file
  with one file per archive. The retry route (routes.ts, lines 378-405) resets the job
  and submits every file whose first number lies in the range of the job's name: both
  files.
\<close>

definition twoFilesTotalOne :: "world option" where
  "twoFilesTotalOne =
     (let w = addJob ''JFK Records 104-104'' 1
                (addFile ''104-10002.pdf'' (addFile ''104-10001.pdf'' newWorld))
      in drain 1 (downloadBatch 1 (getPdfFiles (storage w)) w))"

text \<open>The first file succeeds and the archive of the job is created.\<close>

definition firstFileArchived :: "world option" where
  "firstFileArchived =
     Option.bind twoFilesTotalOne
       (turns 2 [FetchSettled 0 (Resolved True), BufferSettled 1 (Resolved 2048),
                 ZipSettled 1 (Resolved 1500)])"

text \<open>The second file succeeds.\<close>

definition secondFileDone :: "world option" where
  "secondFileDone =
     Option.bind firstFileArchived
       (turns 3 [FetchSettled 0 (Resolved True), BufferSettled 0 (Resolved 4096)])"

text \<open>The archive that the second success started is created.\<close>

definition secondArchiveDone :: "world option" where
  "secondArchiveDone = Option.bind secondFileDone (turns 4 [ZipSettled 0 (Resolved 3000)])"

subsection \<open>A file submitted again while its transfer is in flight\<close>

definition threeFiles :: world where
  "threeFiles = addFile ''106.pdf'' (addFile ''105.pdf'' (addFile ''104.pdf'' newWorld))"

text \<open>
  Job 1 (files 1 to 3) fills the capacity; job 2 submits file 1 again, and its entry
  waits in the queue.
\<close>

definition fileSubmittedAgain :: "world option" where
  "fileSubmittedAgain =
     (let w = addJob ''JFK Records 104-104'' 1 (addJob ''JFK Records 104-106'' 3 threeFiles)
      in Option.bind (drain 1 (downloadBatch 1 (getPdfFiles (storage w)) w))
           (\<lambda>w1. drain 2 (downloadBatch 2 (take 1 (getPdfFiles (storage w1))) w1)))"

text \<open>
  The transfer of file 1 for job 1 succeeds. The state is taken after line 178 of
  \<open>downloadFile\<close>, five continuations into the turn, before lines 180-191 run.
\<close>

definition beforeDequeue :: "world option" where
  "beforeDequeue =
     Option.bind (Option.bind fileSubmittedAgain (turn 3 (FetchSettled 0 (Resolved True))))
       (\<lambda>w. map_option (ticks 5 4) (settle (BufferSettled 2 (Resolved 2048)) w))"

definition afterDequeue :: "world option" where
  "afterDequeue = Option.bind beforeDequeue (drain 4)"

section \<open>Theorems\<close>

subsection \<open>The event loop\<close>



subsection \<open>processQueue in closed form\<close>

lemma processQueue_full:
  "\<not> length (activeDownloads (downloader w)) < maxConcurrentDownloads (downloader w) \<Longrightarrow>
   processQueue w = w"
  by (subst processQueue.simps) simp

lemma processQueue_Nil:
  "queue (downloader w) = [] \<Longrightarrow> processQueue w = w"
  by (subst processQueue.simps) simp

lemma processQueue_Cons_cancelled:
  "length (activeDownloads (downloader w)) < maxConcurrentDownloads (downloader w) \<Longrightarrow>
   queue (downloader w) = (jobId, f) # rest \<Longrightarrow> jobId \<in> cancelledJobs (downloader w) \<Longrightarrow>
   processQueue w = processQueue (w\<lparr>downloader := (downloader w)\<lparr>queue := rest\<rparr>\<rparr>)"
  by (subst processQueue.simps) simp

lemma processQueue_Cons_start:
  "length (activeDownloads (downloader w)) < maxConcurrentDownloads (downloader w) \<Longrightarrow>
   queue (downloader w) = (jobId, f) # rest \<Longrightarrow> jobId \<notin> cancelledJobs (downloader w) \<Longrightarrow>
   processQueue w =
     processQueue (downloadFile jobId f (w\<lparr>downloader := (downloader w)\<lparr>queue := rest\<rparr>\<rparr>))"
  by (subst processQueue.simps) simp

lemma processQueue_free_aux:
  "queue (downloader w) = q \<Longrightarrow>
   length (activeDownloads (downloader w)) < maxConcurrentDownloads (downloader w) \<Longrightarrow>
   processQueue w =
     w\<lparr>downloader := (downloader w)\<lparr>queue := []\<rparr>,
       microtasks := microtasks w @
         map (\<lambda>item. DownloadFile_register (fst item) (snd item)) (startable w),
       storage := markDownloading (startable w) (storage w)\<rparr>"
proof (induction q arbitrary: w)
  case Nil
  then show ?case by (simp add: processQueue_Nil startable_def markDownloading_def)
next
  case (Cons item rest)
  obtain jobId f where item: "item = (jobId, f)" by (cases item)
  define w1 where "w1 = w\<lparr>downloader := (downloader w)\<lparr>queue := rest\<rparr>\<rparr>"
  show ?case
  proof (cases "jobId \<in> cancelledJobs (downloader w)")
    case True
    have eq: "processQueue w = processQueue w1"
      using Cons.prems item True by (simp add: processQueue_Cons_cancelled w1_def)
    show ?thesis
      using Cons.IH [of w1] Cons.prems item True
      by (simp add: eq w1_def startable_def)
  next
    case False
    have eq: "processQueue w = processQueue (downloadFile jobId f w1)"
      using Cons.prems item False by (simp add: processQueue_Cons_start w1_def)
    show ?thesis
      using Cons.IH [of "downloadFile jobId f w1"] Cons.prems item False
      by (simp add: eq w1_def startable_def markDownloading_def downloadFile_def suspend_def
          withStorage_def)
  qed
qed

text \<open>
  The registration in \<open>activeDownloads\<close> (line 102) comes after the first await of
  \<open>downloadFile\<close>, so the count that the loop tests does not change while the loop
  runs: a call that finds a free slot starts every entry of the queue whose job is not
  cancelled, whatever the capacity.
\<close>

lemma processQueue_closed_form:
  "processQueue w =
     (if length (activeDownloads (downloader w)) < maxConcurrentDownloads (downloader w)
      then w\<lparr>downloader := (downloader w)\<lparr>queue := []\<rparr>,
             microtasks := microtasks w @
               map (\<lambda>item. DownloadFile_register (fst item) (snd item)) (startable w),
             storage := markDownloading (startable w) (storage w)\<rparr>
      else w)"
  using processQueue_free_aux [OF refl, of w] processQueue_full [of w] by simp

lemma downloadFile_register_microtasks [simp]:
  "microtasks (downloadFile_register now jobId file w) = microtasks w"
  by (simp add: downloadFile_register_def startIO_def Let_def)




subsection \<open>The record store\<close>

lemma updatePdfFile_other_fields [simp]:
  "downloadJobs (snd (updatePdfFile i d st)) = downloadJobs st"
  "completedDownloads (snd (updatePdfFile i d st)) = completedDownloads st"
  "historyEntries (snd (updatePdfFile i d st)) = historyEntries st"
  by (simp_all add: updatePdfFile_def Let_def split: option.splits)

lemma markQueued_other_fields [simp]:
  "downloadJobs (markQueued files st) = downloadJobs st"
  "completedDownloads (markQueued files st) = completedDownloads st"
  "historyEntries (markQueued files st) = historyEntries st"
  by (induction files arbitrary: st) (simp_all add: markQueued_def)

lemma markDownloading_other_fields [simp]:
  "downloadJobs (markDownloading items st) = downloadJobs st"
  "completedDownloads (markDownloading items st) = completedDownloads st"
  "historyEntries (markDownloading items st) = historyEntries st"
  by (induction items arbitrary: st) (simp_all add: markDownloading_def)


lemma map_of_update_other:
  "j \<noteq> i \<Longrightarrow> map_of (AList.update i v al) j = map_of al j"
  by (simp add: update_conv')

lemma keys_update_present:
  "map_of al i = Some x \<Longrightarrow> map fst (AList.update i v al) = map fst al"
  by (induction al) (auto split: if_splits)

text \<open>
  C10. A record-store update of a file or of a job whose id is absent returns
  \<open>undefined\<close> and leaves the whole store as it was. When the id is present, the
  returned and stored record takes, for each key the partial update names, the given
  value and keeps every other field; every other record under every other id, the order
  of the keys, and every other component of the store are unchanged.
\<close>

theorem C10_update_frame:
  "(map_of (pdfFiles st) i = None \<longrightarrow> updatePdfFile i d st = (None, st)) \<and>
   (map_of (downloadJobs st) i = None \<longrightarrow> updateDownloadJob i e st = (None, st)) \<and>
   (\<forall>file. map_of (pdfFiles st) i = Some file \<longrightarrow>
      (\<exists>file' st'. updatePdfFile i d st = (Some file', st') \<and>
         map_of (pdfFiles st') i = Some file' \<and>
         pdf_id file' = orElse (p_id d) (pdf_id file) \<and>
         pdf_url file' = orElse (p_url d) (pdf_url file) \<and>
         pdf_filename file' = orElse (p_filename d) (pdf_filename file) \<and>
         pdf_size file' = orElse (p_size d) (pdf_size file) \<and>
         pdf_status file' = orElse (p_status d) (pdf_status file) \<and>
         pdf_progress file' = orElse (p_progress d) (pdf_progress file) \<and>
         pdf_createdAt file' = orElse (p_createdAt d) (pdf_createdAt file) \<and>
         (\<forall>j. j \<noteq> i \<longrightarrow> map_of (pdfFiles st') j = map_of (pdfFiles st) j) \<and>
         map fst (pdfFiles st') = map fst (pdfFiles st) \<and>
         st' = st\<lparr>pdfFiles := pdfFiles st'\<rparr>)) \<and>
   (\<forall>job. map_of (downloadJobs st) i = Some job \<longrightarrow>
      (\<exists>job' st'. updateDownloadJob i e st = (Some job', st') \<and>
         map_of (downloadJobs st') i = Some job' \<and>
         job_id job' = orElse (q_id e) (job_id job) \<and>
         job_name job' = orElse (q_name e) (job_name job) \<and>
         job_totalFiles job' = orElse (q_totalFiles e) (job_totalFiles job) \<and>
         job_downloadedFiles job' = orElse (q_downloadedFiles e) (job_downloadedFiles job) \<and>
         job_size job' = orElse (q_size e) (job_size job) \<and>
         job_status job' = orElse (q_status e) (job_status job) \<and>
         job_createdAt job' = orElse (q_createdAt e) (job_createdAt job) \<and>
         job_completedAt job' = orElse (q_completedAt e) (job_completedAt job) \<and>
         (\<forall>j. j \<noteq> i \<longrightarrow> map_of (downloadJobs st') j = map_of (downloadJobs st) j) \<and>
         map fst (downloadJobs st') = map fst (downloadJobs st) \<and>
         st' = st\<lparr>downloadJobs := downloadJobs st'\<rparr>))"
proof (intro conjI allI impI)
  assume "map_of (pdfFiles st) i = None"
  then show "updatePdfFile i d st = (None, st)"
    by (simp add: updatePdfFile_def)
next
  assume "map_of (downloadJobs st) i = None"
  then show "updateDownloadJob i e st = (None, st)"
    by (simp add: updateDownloadJob_def)
next
  fix pf
  assume present: "map_of (pdfFiles st) i = Some pf"
  define pf' where "pf' = spreadPdfFile pf d"
  define st' where "st' = st\<lparr>pdfFiles := AList.update i pf' (pdfFiles st)\<rparr>"
  have run: "updatePdfFile i d st = (Some pf', st')"
    using present by (simp add: updatePdfFile_def pf'_def st'_def Let_def)
  have stored: "map_of (pdfFiles st') i = Some pf'"
    by (simp add: st'_def update_conv')
  have others: "\<forall>j. j \<noteq> i \<longrightarrow> map_of (pdfFiles st') j = map_of (pdfFiles st) j"
    by (simp add: st'_def map_of_update_other)
  have keys: "map fst (pdfFiles st') = map fst (pdfFiles st)"
    using present by (simp add: st'_def keys_update_present)
  have frame: "st' = st\<lparr>pdfFiles := pdfFiles st'\<rparr>"
    by (simp add: st'_def)
  show "\<exists>file' st'. updatePdfFile i d st = (Some file', st') \<and>
         map_of (pdfFiles st') i = Some file' \<and>
         pdf_id file' = orElse (p_id d) (pdf_id pf) \<and>
         pdf_url file' = orElse (p_url d) (pdf_url pf) \<and>
         pdf_filename file' = orElse (p_filename d) (pdf_filename pf) \<and>
         pdf_size file' = orElse (p_size d) (pdf_size pf) \<and>
         pdf_status file' = orElse (p_status d) (pdf_status pf) \<and>
         pdf_progress file' = orElse (p_progress d) (pdf_progress pf) \<and>
         pdf_createdAt file' = orElse (p_createdAt d) (pdf_createdAt pf) \<and>
         (\<forall>j. j \<noteq> i \<longrightarrow> map_of (pdfFiles st') j = map_of (pdfFiles st) j) \<and>
         map fst (pdfFiles st') = map fst (pdfFiles st) \<and>
         st' = st\<lparr>pdfFiles := pdfFiles st'\<rparr>"
    using run stored others keys frame
    by (intro exI[of _ pf'] exI[of _ st']) (simp add: pf'_def spreadPdfFile_def)
next
  fix job
  assume present: "map_of (downloadJobs st) i = Some job"
  define job' where "job' = spreadDownloadJob job e"
  define st' where "st' = st\<lparr>downloadJobs := AList.update i job' (downloadJobs st)\<rparr>"
  have run: "updateDownloadJob i e st = (Some job', st')"
    using present by (simp add: updateDownloadJob_def job'_def st'_def Let_def)
  have stored: "map_of (downloadJobs st') i = Some job'"
    by (simp add: st'_def update_conv')
  have others: "\<forall>j. j \<noteq> i \<longrightarrow> map_of (downloadJobs st') j = map_of (downloadJobs st) j"
    by (simp add: st'_def map_of_update_other)
  have keys: "map fst (downloadJobs st') = map fst (downloadJobs st)"
    using present by (simp add: st'_def keys_update_present)
  have frame: "st' = st\<lparr>downloadJobs := downloadJobs st'\<rparr>"
    by (simp add: st'_def)
  show "\<exists>job' st'. updateDownloadJob i e st = (Some job', st') \<and>
         map_of (downloadJobs st') i = Some job' \<and>
         job_id job' = orElse (q_id e) (job_id job) \<and>
         job_name job' = orElse (q_name e) (job_name job) \<and>
         job_totalFiles job' = orElse (q_totalFiles e) (job_totalFiles job) \<and>
         job_downloadedFiles job' = orElse (q_downloadedFiles e) (job_downloadedFiles job) \<and>
         job_size job' = orElse (q_size e) (job_size job) \<and>
         job_status job' = orElse (q_status e) (job_status job) \<and>
         job_createdAt job' = orElse (q_createdAt e) (job_createdAt job) \<and>
         job_completedAt job' = orElse (q_completedAt e) (job_completedAt job) \<and>
         (\<forall>j. j \<noteq> i \<longrightarrow> map_of (downloadJobs st') j = map_of (downloadJobs st) j) \<and>
         map fst (downloadJobs st') = map fst (downloadJobs st) \<and>
         st' = st\<lparr>downloadJobs := downloadJobs st'\<rparr>"
    using run stored others keys frame
    by (intro exI[of _ job'] exI[of _ st']) (simp add: job'_def spreadDownloadJob_def)
qed

text \<open>
  The theorem at a store holding file 1 and job 1: updating the status of file 1 and the
  counter of job 1 changes those fields only, and updating the absent id 2 returns
  \<open>undefined\<close>.
\<close>

theorem C10_update_frame_witness:
  "(let st = snd (createDownloadJob 5 ''JFK Records 104-104'' 1 ''queued''
               (snd (createPdfFile 5 ''http://a/104-1.pdf'' ''104-1.pdf'' ''Unknown'' Ready
                  newMemStorage)))
    in map_of (pdfFiles st) 1 \<noteq> None \<and> map_of (downloadJobs st) 1 \<noteq> None \<and>
       map_of (pdfFiles st) 2 = None \<and> map_of (downloadJobs st) 2 = None \<and>
       updatePdfFile 2 (noPdfFields\<lparr>p_status := Some Queued\<rparr>) st = (None, st) \<and>
       updateDownloadJob 2 (noJobFields\<lparr>q_downloadedFiles := Some 1\<rparr>) st = (None, st) \<and>
       fst (updatePdfFile 1 (noPdfFields\<lparr>p_status := Some Queued\<rparr>) st) =
         Some \<lparr>pdf_id = 1, pdf_url = ''http://a/104-1.pdf'', pdf_filename = ''104-1.pdf'',
           pdf_size = ''Unknown'', pdf_status = Queued, pdf_progress = 0, pdf_createdAt = 5\<rparr> \<and>
       fst (updateDownloadJob 1 (noJobFields\<lparr>q_downloadedFiles := Some 1\<rparr>) st) =
         Some \<lparr>job_id = 1, job_name = ''JFK Records 104-104'', job_totalFiles = 1,
           job_downloadedFiles = 1, job_size = None, job_status = ''queued'',
           job_createdAt = 5, job_completedAt = None\<rparr>)"
  using C10_update_frame
    [of "snd (createDownloadJob 5 ''JFK Records 104-104'' 1 ''queued''
               (snd (createPdfFile 5 ''http://a/104-1.pdf'' ''104-1.pdf'' ''Unknown'' Ready
                  newMemStorage)))"
        1 "noPdfFields\<lparr>p_status := Some Queued\<rparr>" "noJobFields\<lparr>q_downloadedFiles := Some 1\<rparr>"]
    C10_update_frame
    [of "snd (createDownloadJob 5 ''JFK Records 104-104'' 1 ''queued''
               (snd (createPdfFile 5 ''http://a/104-1.pdf'' ''104-1.pdf'' ''Unknown'' Ready
                  newMemStorage)))"
        2 "noPdfFields\<lparr>p_status := Some Queued\<rparr>" "noJobFields\<lparr>q_downloadedFiles := Some 1\<rparr>"]
  by (simp add: createDownloadJob_def createPdfFile_def newMemStorage_def Let_def
      noPdfFields_def noJobFields_def orElse_def updatePdfFile_def updateDownloadJob_def
      spreadPdfFile_def spreadDownloadJob_def)

subsection \<open>Throughput\<close>






text \<open>
  An example: one download of 4096 bytes started two seconds ago and one started in
  this millisecond, which is left out of the mean.
\<close>

lemma getCurrentSpeed_example:
  "getCurrentSpeed 3000 (newDownloader\<lparr>activeDownloads :=
      [(1, \<lparr>ad_jobId = 1, ad_fileId = 1, bytesDownloaded = 4096, startTime = 1000\<rparr>),
       (2, \<lparr>ad_jobId = 1, ad_fileId = 2, bytesDownloaded = 0, startTime = 3000\<rparr>)]\<rparr>) =
   ''2.0 KB/s''"
  by code_simp

subsection \<open>Submitting a batch\<close>








subsection \<open>The capacity\<close>

text \<open>
  C1, at a batch of four files with the capacity at its default of three: when the
  microtasks of the submission have run, all four files are \<open>downloading\<close>, four
  transfers are in flight and \<open>activeDownloads\<close> holds four entries.
\<close>

theorem C1_four_downloads_with_capacity_three:
  "map_option (\<lambda>w. (maxConcurrentDownloads (downloader w), fileStatuses w,
                     transfersInFlight w, map fst (activeDownloads (downloader w))))
     batchOfFour =
   Some (3, [Downloading, Downloading, Downloading, Downloading], [1, 2, 3, 4], [1, 2, 3, 4])"
  by code_simp

subsection \<open>Cancellation\<close>

text \<open>
  C5, at a job of two files cancelled before any of its entries is dequeued: the
  entries leave the queue, the job is \<open>cancelled\<close> and no archive record exists, but
  the two files stay \<open>queued\<close>, also after the rest of the work is done.
\<close>

theorem C5_cancelled_files_stay_queued:
  "map_option (\<lambda>w. (jobView 2 w, map fst (queue (downloader w)), fileStatuses w))
     secondJobQueued =
   Some (Some (''in progress'', 0, 2), [2, 2],
         [Downloading, Downloading, Downloading, Queued, Queued]) \<and>
   map_option (\<lambda>w. (jobView 2 w, map fst (queue (downloader w)), fileStatuses w, archiveNames w))
     secondJobCancelled =
   Some (Some (''cancelled'', 0, 2), [],
         [Downloading, Downloading, Downloading, Queued, Queued], []) \<and>
   map_option (\<lambda>w. (jobView 2 w, transfersInFlight w, fileStatuses w))
     firstJobDownloaded =
   Some (Some (''cancelled'', 0, 2), [],
         [Completed, Completed, Completed, Queued, Queued])"
  by code_simp

subsection \<open>completeJob\<close>

lemma set_microtasks_idle: "microtasks w = [] \<Longrightarrow> w\<lparr>microtasks := []\<rparr> = w"
  by (cases w) simp

lemma getPdfFiles_after_job_update [simp]:
  "getPdfFiles (snd (updateDownloadJob i d st)) = getPdfFiles st"
  by (simp add: updateDownloadJob_def getPdfFiles_def Let_def split: option.splits)

lemma updateDownloadJob_present:
  "getDownloadJob i st = Some job \<Longrightarrow>
   updateDownloadJob i d st =
     (Some (spreadDownloadJob job d),
      st\<lparr>downloadJobs := AList.update i (spreadDownloadJob job d) (downloadJobs st)\<rparr>)"
  by (simp add: updateDownloadJob_def getDownloadJob_def Let_def)

lemma getDownloadJob_after_update:
  "getDownloadJob i st = Some job \<Longrightarrow>
   getDownloadJob j (snd (updateDownloadJob i d st)) =
     (if j = i then Some (spreadDownloadJob job d) else getDownloadJob j st)"
  by (simp add: updateDownloadJob_present getDownloadJob_def update_conv')

lemma completeJob_no_artifacts:
  assumes idle: "microtasks w = []"
    and job: "getDownloadJob jobId (storage w) = Some job"
    and none: "jobArtifacts job w = []"
  shows "ticks 5 now (completeJob jobId k w) =
     w\<lparr>microtasks := [k],
       storage := snd (createHistoryEntry now ''Download failed''
          (''Failed to complete download job '' @ showNat jobId @ '': '' @
             ''No files found to include in zip'') 0
          (snd (updateDownloadJob jobId
              (noJobFields\<lparr>q_status := Some ''failed'', q_completedAt := Some (Some now)\<rparr>)
           (snd (updateDownloadJob jobId (noJobFields\<lparr>q_status := Some ''creating zip''\<rparr>)
              (storage w))))))\<rparr>"
  using idle job none
  by (simp add: eval_nat_numeral completeJob_def suspend_def completeJob_afterGetJob_def
      withStorage_def completeJob_afterCreatingZip_def completeJob_afterGetFiles_def Let_def
      jobArtifacts_def completeJob_catch_def completeJob_afterFailed_def)

lemma completeJob_with_artifacts:
  assumes idle: "microtasks w = []"
    and job: "getDownloadJob jobId (storage w) = Some job"
    and some: "jobArtifacts job w \<noteq> []"
  shows "ticks 3 now (completeJob jobId k w) =
     w\<lparr>storage := snd (updateDownloadJob jobId (noJobFields\<lparr>q_status := Some ''creating zip''\<rparr>)
              (storage w)),
       awaiting := awaiting w @ [AwaitZip jobId job (jobArtifacts job w) (zipFileNameOf job) k]\<rparr>"
  using idle job some
  by (simp add: eval_nat_numeral completeJob_def suspend_def completeJob_afterGetJob_def
      withStorage_def completeJob_afterCreatingZip_def completeJob_afterGetFiles_def Let_def
      jobArtifacts_def zipFileNameOf_def startIO_def set_microtasks_idle)

lemma zip_rejected:
  assumes idle: "microtasks w = []"
    and i: "i < length (awaiting w)"
    and at: "awaiting w ! i = AwaitZip jobId snapshot tempFiles zipFileName k"
  shows "map_option (ticks 3 now) (settle (ZipSettled i (Rejected msg)) w) =
     Some (w\<lparr>microtasks := [k], awaiting := removeAt i (awaiting w),
       storage := snd (createHistoryEntry now ''Download failed''
          (''Failed to complete download job '' @ showNat jobId @ '': '' @ msg) 0
          (snd (updateDownloadJob jobId
              (noJobFields\<lparr>q_status := Some ''failed'', q_completedAt := Some (Some now)\<rparr>)
              (storage w))))\<rparr>)"
  using idle i at
  by (simp add: eval_nat_numeral suspend_def completeJob_onZip_def
      withStorage_def completeJob_catch_def completeJob_afterFailed_def)

lemma zip_resolved:
  assumes idle: "microtasks w = []"
    and i: "i < length (awaiting w)"
    and at: "awaiting w ! i = AwaitZip jobId snapshot tempFiles zipFileName k"
  shows "map_option (ticks 4 now) (settle (ZipSettled i (Resolved n)) w) =
     Some (w\<lparr>microtasks := [k], awaiting := removeAt i (awaiting w),
       storage := snd (createHistoryEntry now ''Download completed''
          (''Completed download job: '' @ job_name snapshot @ '' with '' @
             showNat (length tempFiles) @ '' files'') (length tempFiles)
          (snd (createCompletedDownload now zipFileName
             (showNat (length tempFiles) @ '' PDFs ('' @ job_name snapshot @ '')'')
             (formatSize n) (''downloads/'' @ zipFileName)
          (snd (updateDownloadJob jobId
              (noJobFields\<lparr>q_status := Some ''completed'',
                 q_completedAt := Some (Some now), q_size := Some (Some (formatSize n))\<rparr>)
              (storage w))))))\<rparr>)"
  using idle i at
  by (simp add: eval_nat_numeral suspend_def completeJob_onZip_def Let_def
      withStorage_def completeJob_afterCompleted_def completeJob_afterArchive_def)

lemma createHistoryEntry_fields [simp]:
  "historyEntries (snd (createHistoryEntry now act det cnt st)) =
     AList.update (historyCounter st)
       \<lparr>h_id = historyCounter st, h_date = now, h_action = act, h_details = det,
        h_filesCount = cnt\<rparr> (historyEntries st)"
  "downloadJobs (snd (createHistoryEntry now act det cnt st)) = downloadJobs st"
  "completedDownloads (snd (createHistoryEntry now act det cnt st)) = completedDownloads st"
  "pdfFiles (snd (createHistoryEntry now act det cnt st)) = pdfFiles st"
  by (simp_all add: createHistoryEntry_def Let_def)

lemma createCompletedDownload_fields [simp]:
  "completedDownloads (snd (createCompletedDownload now fname cont sz pth st)) =
     AList.update (completedDownloadsCounter st)
       \<lparr>cd_id = completedDownloadsCounter st, cd_filename = fname, cd_contents = cont,
        cd_size = sz, cd_path = pth, cd_date = now\<rparr> (completedDownloads st)"
  "downloadJobs (snd (createCompletedDownload now fname cont sz pth st)) = downloadJobs st"
  "historyEntries (snd (createCompletedDownload now fname cont sz pth st)) = historyEntries st"
  "historyCounter (snd (createCompletedDownload now fname cont sz pth st)) = historyCounter st"
  "pdfFiles (snd (createCompletedDownload now fname cont sz pth st)) = pdfFiles st"
  by (simp_all add: createCompletedDownload_def Let_def)

lemma updateDownloadJob_fields [simp]:
  "historyEntries (snd (updateDownloadJob i d st)) = historyEntries st"
  "historyCounter (snd (updateDownloadJob i d st)) = historyCounter st"
  "completedDownloads (snd (updateDownloadJob i d st)) = completedDownloads st"
  "completedDownloadsCounter (snd (updateDownloadJob i d st)) = completedDownloadsCounter st"
  "pdfFiles (snd (updateDownloadJob i d st)) = pdfFiles st"
  by (simp_all add: updateDownloadJob_def Let_def split: option.splits)

lemma getDownloadJob_cong:
  "downloadJobs st = downloadJobs st' \<Longrightarrow> getDownloadJob i st = getDownloadJob i st'"
  by (simp add: getDownloadJob_def)

lemma failed_twice:
  "getDownloadJob jobId st = Some job \<Longrightarrow>
   getDownloadJob jobId
     (snd (updateDownloadJob jobId
        (noJobFields\<lparr>q_status := Some ''failed'', q_completedAt := Some (Some now)\<rparr>)
        (snd (updateDownloadJob jobId (noJobFields\<lparr>q_status := Some ''creating zip''\<rparr>) st)))) =
   Some (job\<lparr>job_status := ''failed'', job_completedAt := Some now\<rparr>)"
  by (simp add: getDownloadJob_after_update spreadDownloadJob_def noJobFields_def orElse_def)

lemma failed_once:
  "getDownloadJob jobId st = Some job \<Longrightarrow>
   getDownloadJob jobId
     (snd (updateDownloadJob jobId
        (noJobFields\<lparr>q_status := Some ''failed'', q_completedAt := Some (Some now)\<rparr>) st)) =
   Some (job\<lparr>job_status := ''failed'', job_completedAt := Some now\<rparr>)"
  by (simp add: getDownloadJob_after_update spreadDownloadJob_def noJobFields_def orElse_def)

text \<open>
  C7. When the archiving step fails, the job is set to \<open>failed\<close> with the
  completion timestamp and the failure entry is appended to the history; nothing is
  retried: no archive creation is started, the queue and the rest of the downloader
  are as before, and the only continuation left is the caller's \<open>k\<close>. First, when
  no staged artifact resolves (five continuations after the call); second, when archive
  creation rejects (three continuations after the rejection).
\<close>

theorem C7_archiving_failure:
  "(microtasks w = [] \<and> getDownloadJob jobId (storage w) = Some job \<and> jobArtifacts job w = [] \<longrightarrow>
      (\<exists>wF. ticks 5 now (completeJob jobId k w) = wF\<lparr>microtasks := [k]\<rparr> \<and>
            archivingFailed now jobId ''No files found to include in zip'' job w wF \<and>
            awaiting wF = awaiting w)) \<and>
   (microtasks w = [] \<and> i < length (awaiting w) \<and>
    awaiting w ! i = AwaitZip jobId snapshot tempFiles zipFileName k \<and>
    getDownloadJob jobId (storage w) = Some job \<longrightarrow>
      (\<exists>wF. map_option (ticks 3 now) (settle (ZipSettled i (Rejected msg)) w) =
               Some (wF\<lparr>microtasks := [k]\<rparr>) \<and>
            archivingFailed now jobId msg job w wF \<and>
            awaiting wF = removeAt i (awaiting w)))"
proof (intro conjI impI)
  assume h: "microtasks w = [] \<and> getDownloadJob jobId (storage w) = Some job \<and>
             jobArtifacts job w = []"
  define wF where "wF = w\<lparr>
       storage := snd (createHistoryEntry now ''Download failed''
          (''Failed to complete download job '' @ showNat jobId @ '': '' @
             ''No files found to include in zip'') 0
          (snd (updateDownloadJob jobId
              (noJobFields\<lparr>q_status := Some ''failed'', q_completedAt := Some (Some now)\<rparr>)
           (snd (updateDownloadJob jobId (noJobFields\<lparr>q_status := Some ''creating zip''\<rparr>)
              (storage w))))))\<rparr>"
  have run: "ticks 5 now (completeJob jobId k w) = wF\<lparr>microtasks := [k]\<rparr>"
    using h by (simp add: completeJob_no_artifacts wF_def)
  have job': "getDownloadJob jobId (storage wF) =
        Some (job\<lparr>job_status := ''failed'', job_completedAt := Some now\<rparr>)"
    using h failed_twice [where jobId = jobId and st = "storage w" and job = job and now = now]
    by (simp add: wF_def getDownloadJob_def)
  have "archivingFailed now jobId ''No files found to include in zip'' job w wF"
    unfolding archivingFailed_def using job' h by (simp add: wF_def failureEntry_def)
  then show "\<exists>wF. ticks 5 now (completeJob jobId k w) = wF\<lparr>microtasks := [k]\<rparr> \<and>
            archivingFailed now jobId ''No files found to include in zip'' job w wF \<and>
            awaiting wF = awaiting w"
    using run by (intro exI [of _ wF]) (simp add: wF_def)
next
  assume h: "microtasks w = [] \<and> i < length (awaiting w) \<and>
    awaiting w ! i = AwaitZip jobId snapshot tempFiles zipFileName k \<and>
    getDownloadJob jobId (storage w) = Some job"
  define wF where "wF = w\<lparr>awaiting := removeAt i (awaiting w),
       storage := snd (createHistoryEntry now ''Download failed''
          (''Failed to complete download job '' @ showNat jobId @ '': '' @ msg) 0
          (snd (updateDownloadJob jobId
              (noJobFields\<lparr>q_status := Some ''failed'', q_completedAt := Some (Some now)\<rparr>)
              (storage w))))\<rparr>"
  have run: "map_option (ticks 3 now) (settle (ZipSettled i (Rejected msg)) w) =
               Some (wF\<lparr>microtasks := [k]\<rparr>)"
    using h zip_rejected [of w i jobId snapshot tempFiles zipFileName k now msg]
    by (simp add: wF_def)
  have job': "getDownloadJob jobId (storage wF) =
        Some (job\<lparr>job_status := ''failed'', job_completedAt := Some now\<rparr>)"
    using h failed_once [where jobId = jobId and st = "storage w" and job = job and now = now]
    by (simp add: wF_def getDownloadJob_def)
  have "archivingFailed now jobId msg job w wF"
    unfolding archivingFailed_def using job' h by (simp add: wF_def failureEntry_def)
  then show "\<exists>wF. map_option (ticks 3 now) (settle (ZipSettled i (Rejected msg)) w) =
               Some (wF\<lparr>microtasks := [k]\<rparr>) \<and>
            archivingFailed now jobId msg job w wF \<and>
            awaiting wF = removeAt i (awaiting w)"
    using run by (intro exI [of _ wF]) (simp add: wF_def)
qed

lemma completed_once:
  "getDownloadJob jobId st = Some job \<Longrightarrow>
   getDownloadJob jobId
     (snd (updateDownloadJob jobId
        (noJobFields\<lparr>q_status := Some ''completed'', q_completedAt := Some (Some now),
           q_size := Some (Some sz)\<rparr>) st)) =
   Some (job\<lparr>job_status := ''completed'', job_completedAt := Some now, job_size := Some sz\<rparr>)"
  by (simp add: getDownloadJob_after_update spreadDownloadJob_def noJobFields_def orElse_def)

lemma creating_once:
  "getDownloadJob jobId st = Some job \<Longrightarrow>
   getDownloadJob jobId
     (snd (updateDownloadJob jobId (noJobFields\<lparr>q_status := Some ''creating zip''\<rparr>) st)) =
   Some (job\<lparr>job_status := ''creating zip''\<rparr>)"
  by (simp add: getDownloadJob_after_update spreadDownloadJob_def noJobFields_def orElse_def)

text \<open>
  C3 as stated fails in the scenario of two files for a job with a total of one: the
  success of the second file invokes \<open>completeJob\<close> for the job that is already
  \<open>completed\<close>, and a second archive record and a second history entry appear.
\<close>

theorem C3_second_invocation_counterexample:
  "map_option (\<lambda>w. (jobView 1 w, archiveNames w, historyActions w)) firstFileArchived =
     Some (Some (''completed'', 1, 1), [''jfk-docs-jfk-records-104-104.zip''],
           [''Download completed'']) \<and>
   map_option (\<lambda>w. (jobView 1 w, archiveNames w, historyActions w)) secondArchiveDone =
     Some (Some (''completed'', 2, 1),
           [''jfk-docs-jfk-records-104-104.zip'', ''jfk-docs-jfk-records-104-104.zip''],
           [''Download completed'', ''Download completed''])"
  by code_simp

text \<open>
  C3, amended. \<open>completeJob\<close> has no status guard: invoked for a job in the store,
  whatever its status (\<open>creating zip\<close> and \<open>completed\<close> included), it sets the
  status to \<open>creating zip\<close> and, when staged artifacts resolve, starts the creation
  of the archive; when the archive is created, the job becomes \<open>completed\<close> with a
  new timestamp, one archive record is stored under the next id and one entry is
  appended to the history.
\<close>

theorem C3_completeJob_has_no_guard:
  "(microtasks w = [] \<and> getDownloadJob jobId (storage w) = Some job \<and> jobArtifacts job w \<noteq> [] \<longrightarrow>
      (\<exists>wZ. ticks 3 now (completeJob jobId k w) = wZ \<and> microtasks wZ = [] \<and>
            getDownloadJob jobId (storage wZ) = Some (job\<lparr>job_status := ''creating zip''\<rparr>) \<and>
            awaiting wZ =
              awaiting w @ [AwaitZip jobId job (jobArtifacts job w) (zipFileNameOf job) k])) \<and>
   (microtasks w = [] \<and> i < length (awaiting w) \<and>
    awaiting w ! i = AwaitZip jobId snapshot tempFiles zipFileName k \<and>
    getDownloadJob jobId (storage w) = Some job \<longrightarrow>
      (\<exists>wS. map_option (ticks 4 now) (settle (ZipSettled i (Resolved n)) w) =
               Some (wS\<lparr>microtasks := [k]\<rparr>) \<and>
            archivingSucceeded now jobId job snapshot tempFiles zipFileName n w wS \<and>
            awaiting wS = removeAt i (awaiting w)))"
proof (intro conjI impI)
  assume h: "microtasks w = [] \<and> getDownloadJob jobId (storage w) = Some job \<and>
             jobArtifacts job w \<noteq> []"
  have run: "ticks 3 now (completeJob jobId k w) =
     w\<lparr>storage := snd (updateDownloadJob jobId (noJobFields\<lparr>q_status := Some ''creating zip''\<rparr>)
              (storage w)),
       awaiting := awaiting w @ [AwaitZip jobId job (jobArtifacts job w) (zipFileNameOf job) k]\<rparr>"
    using h by (simp add: completeJob_with_artifacts)
  show "\<exists>wZ. ticks 3 now (completeJob jobId k w) = wZ \<and> microtasks wZ = [] \<and>
            getDownloadJob jobId (storage wZ) = Some (job\<lparr>job_status := ''creating zip''\<rparr>) \<and>
            awaiting wZ =
              awaiting w @ [AwaitZip jobId job (jobArtifacts job w) (zipFileNameOf job) k]"
    using h by (simp add: run creating_once)
next
  assume h: "microtasks w = [] \<and> i < length (awaiting w) \<and>
    awaiting w ! i = AwaitZip jobId snapshot tempFiles zipFileName k \<and>
    getDownloadJob jobId (storage w) = Some job"
  define wS where "wS = w\<lparr>awaiting := removeAt i (awaiting w),
       storage := snd (createHistoryEntry now ''Download completed''
          (''Completed download job: '' @ job_name snapshot @ '' with '' @
             showNat (length tempFiles) @ '' files'') (length tempFiles)
          (snd (createCompletedDownload now zipFileName
             (showNat (length tempFiles) @ '' PDFs ('' @ job_name snapshot @ '')'')
             (formatSize n) (''downloads/'' @ zipFileName)
          (snd (updateDownloadJob jobId
              (noJobFields\<lparr>q_status := Some ''completed'',
                 q_completedAt := Some (Some now), q_size := Some (Some (formatSize n))\<rparr>)
              (storage w))))))\<rparr>"
  have run: "map_option (ticks 4 now) (settle (ZipSettled i (Resolved n)) w) =
               Some (wS\<lparr>microtasks := [k]\<rparr>)"
    using h zip_resolved [of w i jobId snapshot tempFiles zipFileName k now n]
    by (simp add: wS_def)
  have job': "getDownloadJob jobId (storage wS) =
        Some (job\<lparr>job_status := ''completed'', job_completedAt := Some now,
                  job_size := Some (formatSize n)\<rparr>)"
    using h completed_once [where jobId = jobId and st = "storage w" and job = job and now = now and sz = "formatSize n"]
    by (simp add: wS_def getDownloadJob_def)
  have "archivingSucceeded now jobId job snapshot tempFiles zipFileName n w wS"
    unfolding archivingSucceeded_def using job' h
    by (simp add: wS_def archiveRecord_def completionEntry_def)
  then show "\<exists>wS. map_option (ticks 4 now) (settle (ZipSettled i (Resolved n)) w) =
               Some (wS\<lparr>microtasks := [k]\<rparr>) \<and>
            archivingSucceeded now jobId job snapshot tempFiles zipFileName n w wS \<and>
            awaiting wS = removeAt i (awaiting w)"
    using run by (intro exI [of _ wS]) (simp add: wS_def)
qed

text \<open>
  The theorem at a second invocation: job 1 is \<open>completed\<close> and has one archive
  record; \<open>completeJob\<close> is invoked again and the archive is created again.
\<close>

theorem C3_completeJob_has_no_guard_witness:
  "microtasks (the firstFileArchived) = [] \<and>
   jobView 1 (the firstFileArchived) = Some (''completed'', 1, 1) \<and>
   archiveNames (the firstFileArchived) = [''jfk-docs-jfk-records-104-104.zip''] \<and>
   jobArtifacts (the (getDownloadJob 1 (storage (the firstFileArchived)))) (the firstFileArchived) =
     [''1-104-10001.pdf''] \<and>
   (\<exists>wZ wS k. ticks 3 5 (completeJob 1 k (the firstFileArchived)) = wZ \<and>
      jobView 1 wZ = Some (''creating zip'', 1, 1) \<and> zipsInFlight wZ = [1] \<and>
      map_option (ticks 4 6) (settle (ZipSettled 1 (Resolved 3000)) wZ) =
        Some (wS\<lparr>microtasks := [k]\<rparr>) \<and>
      jobView 1 wS = Some (''completed'', 1, 1) \<and>
      archiveNames wS =
        [''jfk-docs-jfk-records-104-104.zip'', ''jfk-docs-jfk-records-104-104.zip''] \<and>
      historyActions wS = [''Download completed'', ''Download completed''])"
proof -
  define w where "w = the firstFileArchived"
  define job where "job = the (getDownloadJob 1 (storage w))"
  define k where "k = DownloadFile_finish 1 (hd (getPdfFiles (storage w)))"
  define wZ where "wZ = ticks 3 5 (completeJob 1 k w)"
  have idle: "microtasks w = []" unfolding w_def by code_simp
  have job: "getDownloadJob 1 (storage w) = Some job" unfolding job_def w_def by code_simp
  have view: "jobView 1 w = Some (''completed'', 1, 1)" unfolding w_def by code_simp
  have names: "archiveNames w = [''jfk-docs-jfk-records-104-104.zip'']"
    unfolding w_def by code_simp
  have art: "jobArtifacts job w = [''1-104-10001.pdf'']" unfolding job_def w_def by code_simp
  have aw: "length (awaiting w) = 1" unfolding w_def by code_simp
  from C3_completeJob_has_no_guard [where w = w and jobId = 1 and job = job and now = 5
      and k = k, THEN conjunct1] idle job art
  have idleZ: "microtasks wZ = []"
    and jobZ: "getDownloadJob 1 (storage wZ) = Some (job\<lparr>job_status := ''creating zip''\<rparr>)"
    and awZ: "awaiting wZ = awaiting w @ [AwaitZip 1 job (jobArtifacts job w) (zipFileNameOf job) k]"
    by (auto simp: wZ_def)
  have viewZ: "jobView 1 wZ = Some (''creating zip'', 1, 1)"
    unfolding wZ_def k_def w_def by code_simp
  have zipsZ: "zipsInFlight wZ = [1]"
    unfolding wZ_def k_def w_def by code_simp
  from C3_completeJob_has_no_guard [where w = wZ and jobId = 1
      and job = "job\<lparr>job_status := ''creating zip''\<rparr>" and now = 6 and i = 1 and snapshot = job
      and tempFiles = "jobArtifacts job w" and zipFileName = "zipFileNameOf job" and k = k
      and n = 3000, THEN conjunct2] idleZ jobZ awZ aw
    nth_append_length [of "awaiting w"]
  obtain wS where run: "map_option (ticks 4 6) (settle (ZipSettled 1 (Resolved 3000)) wZ) =
        Some (wS\<lparr>microtasks := [k]\<rparr>)"
    and ok: "archivingSucceeded 6 1 (job\<lparr>job_status := ''creating zip''\<rparr>) job
               (jobArtifacts job w) (zipFileNameOf job) 3000 wZ wS"
    by auto
  have idleS: "microtasks wS = []"
    using ok by (simp add: archivingSucceeded_def)
  have obs: "map_option (\<lambda>u. (jobView 1 u, archiveNames u, historyActions u))
                 (map_option (ticks 4 6) (settle (ZipSettled 1 (Resolved 3000)) wZ)) =
        Some (Some (''completed'', 1, 1),
              [''jfk-docs-jfk-records-104-104.zip'', ''jfk-docs-jfk-records-104-104.zip''],
              [''Download completed'', ''Download completed''])"
    unfolding wZ_def k_def w_def by code_simp
  have obsS: "jobView 1 wS = Some (''completed'', 1, 1) \<and>
      archiveNames wS =
        [''jfk-docs-jfk-records-104-104.zip'', ''jfk-docs-jfk-records-104-104.zip''] \<and>
      historyActions wS = [''Download completed'', ''Download completed'']"
    using obs [unfolded run]
    by (simp add: jobView_def archiveNames_def historyActions_def)
  show ?thesis
    using idle view names art [unfolded job_def] viewZ zipsZ run obsS
    unfolding w_def [symmetric] wZ_def [symmetric]
    by (intro conjI exI [of _ wZ] exI [of _ wS] exI [of _ k]) (simp_all add: wZ_def)
qed

text \<open>
  C7 at two failures: a job none of whose files is completed (no artifact resolves),
  and an archive creation that rejects while the job is in \<open>creating zip\<close>.
\<close>

theorem C7_archiving_failure_witness:
  "microtasks (addJob ''JFK Records 104-104'' 1 (addFile ''104-10001.pdf'' newWorld)) = [] \<and>
   jobView 1 (addJob ''JFK Records 104-104'' 1 (addFile ''104-10001.pdf'' newWorld)) =
     Some (''queued'', 0, 1) \<and>
   (\<exists>wF k. ticks 5 7 (completeJob 1 k
              (addJob ''JFK Records 104-104'' 1 (addFile ''104-10001.pdf'' newWorld))) =
             wF\<lparr>microtasks := [k]\<rparr> \<and>
           jobView 1 wF = Some (''failed'', 0, 1) \<and>
           map_option job_completedAt (getDownloadJob 1 (storage wF)) = Some (Some 7) \<and>
           historyActions wF = [''Download failed''] \<and> archiveNames wF = [] \<and>
           awaiting wF = []) \<and>
   (\<exists>wZ wF k. ticks 3 5 (completeJob 1 k (the firstFileArchived)) = wZ \<and>
           zipsInFlight wZ = [1] \<and>
           map_option (ticks 3 6) (settle (ZipSettled 1 (Rejected ''disk full'')) wZ) =
             Some (wF\<lparr>microtasks := [k]\<rparr>) \<and>
           jobView 1 wF = Some (''failed'', 1, 1) \<and>
           map_option job_completedAt (getDownloadJob 1 (storage wF)) = Some (Some 6) \<and>
           historyActions wF = [''Download completed'', ''Download failed''] \<and>
           zipsInFlight wF = [])"
proof -
  define u where "u = addJob ''JFK Records 104-104'' 1 (addFile ''104-10001.pdf'' newWorld)"
  define ujob where "ujob = the (getDownloadJob 1 (storage u))"
  define k where "k = DownloadFile_finish 1 (hd (getPdfFiles (storage u)))"
  have idle: "microtasks u = []" unfolding u_def by code_simp
  have view: "jobView 1 u = Some (''queued'', 0, 1)" unfolding u_def by code_simp
  have job: "getDownloadJob 1 (storage u) = Some ujob" unfolding ujob_def u_def by code_simp
  have none: "jobArtifacts ujob u = []" unfolding ujob_def u_def by code_simp
  from C7_archiving_failure [where w = u and jobId = 1 and job = ujob and now = 7 and k = k,
      THEN conjunct1] idle job none
  obtain wF where run: "ticks 5 7 (completeJob 1 k u) = wF\<lparr>microtasks := [k]\<rparr>"
    and failed: "archivingFailed 7 1 ''No files found to include in zip'' ujob u wF"
    and aw: "awaiting wF = awaiting u"
    by auto
  have obs: "(\<lambda>v. (jobView 1 v, map_option job_completedAt (getDownloadJob 1 (storage v)),
                  historyActions v, archiveNames v, awaiting v))
               (ticks 5 7 (completeJob 1 k u)) =
             (Some (''failed'', 0, 1), Some (Some 7), [''Download failed''], [], [])"
    unfolding k_def u_def by code_simp
  have first: "jobView 1 wF = Some (''failed'', 0, 1) \<and>
           map_option job_completedAt (getDownloadJob 1 (storage wF)) = Some (Some 7) \<and>
           historyActions wF = [''Download failed''] \<and> archiveNames wF = [] \<and>
           awaiting wF = []"
    using obs [unfolded run] by (simp add: jobView_def archiveNames_def historyActions_def)
  define w where "w = the firstFileArchived"
  define job where "job = the (getDownloadJob 1 (storage w))"
  define k2 where "k2 = DownloadFile_finish 1 (hd (getPdfFiles (storage w)))"
  define wZ where "wZ = ticks 3 5 (completeJob 1 k2 w)"
  have idle2: "microtasks w = []" unfolding w_def by code_simp
  have job2: "getDownloadJob 1 (storage w) = Some job" unfolding job_def w_def by code_simp
  have art: "jobArtifacts job w \<noteq> []" unfolding job_def w_def by code_simp
  have len: "length (awaiting w) = 1" unfolding w_def by code_simp
  have wZ: "wZ = w\<lparr>storage := snd (updateDownloadJob 1
                 (noJobFields\<lparr>q_status := Some ''creating zip''\<rparr>) (storage w)),
       awaiting := awaiting w @ [AwaitZip 1 job (jobArtifacts job w) (zipFileNameOf job) k2]\<rparr>"
    unfolding wZ_def by (rule completeJob_with_artifacts [OF idle2 job2 art])
  have idleZ: "microtasks wZ = []" using idle2 by (simp add: wZ)
  have atZ: "1 < length (awaiting wZ) \<and>
      awaiting wZ ! 1 = AwaitZip 1 job (jobArtifacts job w) (zipFileNameOf job) k2"
    using len nth_append_length [of "awaiting w"] by (simp add: wZ)
  have jobZ: "getDownloadJob 1 (storage wZ) = Some (job\<lparr>job_status := ''creating zip''\<rparr>)"
    using job2 by (simp add: wZ creating_once)
  have zipsZ: "zipsInFlight wZ = [1]" unfolding wZ_def k2_def w_def by code_simp
  from C7_archiving_failure [where w = wZ and jobId = 1
      and job = "job\<lparr>job_status := ''creating zip''\<rparr>" and now = 6 and i = 1
      and snapshot = job and tempFiles = "jobArtifacts job w"
      and zipFileName = "zipFileNameOf job" and k = k2 and msg = "''disk full''",
      THEN conjunct2] idleZ atZ jobZ
  obtain wG where run2: "map_option (ticks 3 6) (settle (ZipSettled 1 (Rejected ''disk full'')) wZ) =
             Some (wG\<lparr>microtasks := [k2]\<rparr>)"
    and failed2: "archivingFailed 6 1 ''disk full'' (job\<lparr>job_status := ''creating zip''\<rparr>) wZ wG"
    by auto
  have obs2: "map_option (\<lambda>v. (jobView 1 v, map_option job_completedAt (getDownloadJob 1 (storage v)),
                  historyActions v, zipsInFlight v))
               (map_option (ticks 3 6) (settle (ZipSettled 1 (Rejected ''disk full'')) wZ)) =
             Some (Some (''failed'', 1, 1), Some (Some 6),
                   [''Download completed'', ''Download failed''], [])"
    unfolding wZ_def k2_def w_def by code_simp
  have second: "jobView 1 wG = Some (''failed'', 1, 1) \<and>
           map_option job_completedAt (getDownloadJob 1 (storage wG)) = Some (Some 6) \<and>
           historyActions wG = [''Download completed'', ''Download failed''] \<and>
           zipsInFlight wG = []"
    using obs2 [unfolded run2]
    by (simp add: jobView_def zipsInFlight_def historyActions_def)
  have part1: "\<exists>wF k. ticks 5 7 (completeJob 1 k u) = wF\<lparr>microtasks := [k]\<rparr> \<and>
           jobView 1 wF = Some (''failed'', 0, 1) \<and>
           map_option job_completedAt (getDownloadJob 1 (storage wF)) = Some (Some 7) \<and>
           historyActions wF = [''Download failed''] \<and> archiveNames wF = [] \<and>
           awaiting wF = []"
    using run first by blast
  have part2: "\<exists>wZ wF k. ticks 3 5 (completeJob 1 k w) = wZ \<and>
           zipsInFlight wZ = [1] \<and>
           map_option (ticks 3 6) (settle (ZipSettled 1 (Rejected ''disk full'')) wZ) =
             Some (wF\<lparr>microtasks := [k]\<rparr>) \<and>
           jobView 1 wF = Some (''failed'', 1, 1) \<and>
           map_option job_completedAt (getDownloadJob 1 (storage wF)) = Some (Some 6) \<and>
           historyActions wF = [''Download completed'', ''Download failed''] \<and>
           zipsInFlight wF = []"
    using run2 second zipsZ wZ_def by blast
  show ?thesis
    using idle view part1 part2 unfolding u_def w_def by blast
qed

subsection \<open>The downloaded-file counter\<close>

lemma ticks_numeral:
  "ticks (numeral v) now w =
     (case microtasks w of
        [] \<Rightarrow> w
      | t # ts \<Rightarrow> ticks (pred_numeral v) now (run_task now t (w\<lparr>microtasks := ts\<rparr>)))"
  by (simp add: numeral_eq_Suc)

lemma ticks_idle: "microtasks w = [] \<Longrightarrow> ticks n now w = w"
  by (cases n) simp_all

lemma ticks_Suc_end: "ticks (Suc n) now w = ticks (Suc 0) now (ticks n now w)"
proof (induction n arbitrary: w)
  case 0
  show ?case by simp
next
  case (Suc n)
  show ?case
  proof (cases "microtasks w")
    case Nil
    then show ?thesis by simp
  next
    case (Cons t ts)
    have "ticks (Suc (Suc n)) now w = ticks (Suc n) now (run_task now t (w\<lparr>microtasks := ts\<rparr>))"
      using Cons by simp
    also have "\<dots> = ticks (Suc 0) now (ticks n now (run_task now t (w\<lparr>microtasks := ts\<rparr>)))"
      by (rule Suc.IH)
    also have "\<dots> = ticks (Suc 0) now (ticks (Suc n) now w)"
      using Cons by simp
    finally show ?thesis .
  qed
qed

lemma ticks_one:
  "ticks 1 now w =
     (case microtasks w of [] \<Rightarrow> w | t # ts \<Rightarrow> run_task now t (w\<lparr>microtasks := ts\<rparr>))"
  by (simp split: list.splits)

lemma getDownloadJob_after_file_update [simp]:
  "getDownloadJob j (snd (updatePdfFile i d st)) = getDownloadJob j st"
  by (simp add: getDownloadJob_def)

lemma incremented:
  "getDownloadJob jobId st = Some job \<Longrightarrow>
   getDownloadJob j
     (snd (updateDownloadJob jobId
        (noJobFields\<lparr>q_downloadedFiles := Some (job_downloadedFiles job + 1),
           q_size := Some (Some (sizeOrDefault job))\<rparr>) st)) =
   (if j = jobId
    then Some (job\<lparr>job_downloadedFiles := job_downloadedFiles job + 1,
                    job_size := Some (sizeOrDefault job)\<rparr>)
    else getDownloadJob j st)"
  by (simp add: getDownloadJob_after_update spreadDownloadJob_def noJobFields_def orElse_def)

text \<open>
  C2 as stated fails in the scenario of two files for a job with a total of one: at the
  second success the counter becomes 2, which is not the total 1, and the completion
  check fires all the same (the job goes to \<open>creating zip\<close> and an archive
  creation starts).
\<close>

theorem C2_fires_above_total_counterexample:
  "map_option (\<lambda>w. (jobView 1 w, zipsInFlight w, fileStatuses w)) firstFileArchived =
     Some (Some (''completed'', 1, 1), [], [Completed, Downloading]) \<and>
   map_option (\<lambda>w. (jobView 1 w, zipsInFlight w, fileStatuses w)) secondFileDone =
     Some (Some (''creating zip'', 2, 1), [1], [Completed, Completed])"
  by code_simp

text \<open>
  C2, amended. On a file success for a job in the store (the body of the response has
  arrived, no other continuation pending), \<open>downloadFile\<close> stores the counter it has
  just read plus one, leaves the other jobs as they are, and then invokes
  \<open>completeJob\<close> exactly when that post-increment value is at least the total: also
  when it is greater.
\<close>

theorem C2_increment_then_check:
  assumes idle: "microtasks w = []"
    and i: "i < length (awaiting w)"
    and at: "awaiting w ! i = AwaitBuffer jobId file tmp"
    and job: "getDownloadJob jobId (storage w) = Some job"
  shows "\<exists>wI.
     map_option (ticks (successTicks file) now) (settle (BufferSettled i (Resolved len)) w) =
       Some (wI\<lparr>microtasks := [DownloadFile_afterIncrement jobId file job]\<rparr>) \<and>
     microtasks wI = [] \<and>
     getDownloadJob jobId (storage wI) =
       Some (job\<lparr>job_downloadedFiles := job_downloadedFiles job + 1,
                 job_size := Some (sizeOrDefault job)\<rparr>) \<and>
     (\<forall>j. j \<noteq> jobId \<longrightarrow> getDownloadJob j (storage wI) = getDownloadJob j (storage w)) \<and>
     map_option (ticks (Suc (successTicks file)) now)
         (settle (BufferSettled i (Resolved len)) w) =
       Some (if job_downloadedFiles job + 1 \<ge> job_totalFiles job
             then completeJob jobId (DownloadFile_finish jobId file) wI
             else downloadFile_finish jobId file wI)"
proof -
  define st2 where "st2 =
     snd (updatePdfFile (pdf_id file) (noPdfFields\<lparr>p_status := Some Completed, p_progress := Some 100\<rparr>)
       (snd (updatePdfFile (pdf_id file) (noPdfFields\<lparr>p_progress := Some 100\<rparr>) (storage w))))"
  define st3 where "st3 =
     (if pdf_size file = ''Unknown''
      then snd (updatePdfFile (pdf_id file) (noPdfFields\<lparr>p_size := Some (formatSize len)\<rparr>) st2)
      else st2)"
  define dl where "dl =
     (case map_of (activeDownloads (downloader w)) (pdf_id file) of
        None \<Rightarrow> downloader w
      | Some activeDownload \<Rightarrow>
          (downloader w)\<lparr>activeDownloads :=
             AList.update (pdf_id file) (activeDownload\<lparr>bytesDownloaded := len\<rparr>)
               (activeDownloads (downloader w))\<rparr>)"
  define wI where "wI =
     w\<lparr>awaiting := removeAt i (awaiting w),
       tempDir := AList.update tmp len (tempDir w),
       downloader := dl,
       storage := snd (updateDownloadJob jobId
          (noJobFields\<lparr>q_downloadedFiles := Some (job_downloadedFiles job + 1),
             q_size := Some (Some (sizeOrDefault job))\<rparr>) st3)\<rparr>"
  have job3: "getDownloadJob jobId st3 = Some job"
    using job by (simp add: st3_def st2_def)
  have others3: "getDownloadJob j st3 = getDownloadJob j (storage w)" for j
    by (simp add: st3_def st2_def)
  have settled: "settle (BufferSettled i (Resolved len)) w =
      Some (w\<lparr>awaiting := removeAt i (awaiting w),
              microtasks := [DownloadFile_onBuffer jobId file tmp (Resolved len)]\<rparr>)"
    using idle i at by (simp add: suspend_def)
  have run: "map_option (ticks (successTicks file) now) (settle (BufferSettled i (Resolved len)) w) =
       Some (wI\<lparr>microtasks := [DownloadFile_afterIncrement jobId file job]\<rparr>)"
    unfolding settled using job
    by (cases "map_of (activeDownloads (downloader w)) (pdf_id file)")
       (simp_all add: successTicks_def ticks_numeral ticks_one downloadFile_onBuffer_def Let_def
         suspend_def withStorage_def downloadFile_afterProgress_def update_conv'
         downloadFile_afterCompleted_def downloadFile_getJob_def downloadFile_afterGetJob_def
         wI_def st3_def st2_def dl_def sizeOrDefault_def)
  have idleI: "microtasks wI = []"
    using idle by (simp add: wI_def)
  have next_tick: "map_option (ticks (Suc (successTicks file)) now)
         (settle (BufferSettled i (Resolved len)) w) =
       Some (if job_downloadedFiles job + 1 \<ge> job_totalFiles job
             then completeJob jobId (DownloadFile_finish jobId file) wI
             else downloadFile_finish jobId file wI)"
  proof -
    have "map_option (ticks (Suc (successTicks file)) now)
            (settle (BufferSettled i (Resolved len)) w) =
          map_option (ticks (Suc 0) now)
            (map_option (ticks (successTicks file) now)
               (settle (BufferSettled i (Resolved len)) w))"
      by (cases "settle (BufferSettled i (Resolved len)) w")
         (simp_all only: option.map ticks_Suc_end [of "successTicks file"])
    also have "\<dots> = Some (run_task now (DownloadFile_afterIncrement jobId file job) wI)"
      unfolding run using idleI by (simp add: set_microtasks_idle)
    finally show ?thesis
      by (simp add: downloadFile_afterIncrement_def)
  qed
  have jobI: "getDownloadJob jobId (storage wI) =
       Some (job\<lparr>job_downloadedFiles := job_downloadedFiles job + 1,
                 job_size := Some (sizeOrDefault job)\<rparr>)"
    using incremented [OF job3, of jobId] by (simp add: wI_def)
  have othersI: "\<forall>j. j \<noteq> jobId \<longrightarrow> getDownloadJob j (storage wI) = getDownloadJob j (storage w)"
    using incremented [OF job3] others3 by (simp add: wI_def)
  show ?thesis
    using run idleI next_tick jobI othersI
    by (intro exI [of _ wI]) simp
qed

text \<open>
  The theorem at the second success of the scenario: the counter goes from 1 to 2 with a
  total of 1, and \<open>completeJob\<close> is invoked.
\<close>

theorem C2_increment_then_check_witness:
  "microtasks (the (Option.bind firstFileArchived (turn 3 (FetchSettled 0 (Resolved True))))) = [] \<and>
   jobView 1 (the (Option.bind firstFileArchived (turn 3 (FetchSettled 0 (Resolved True))))) =
     Some (''completed'', 1, 1) \<and>
   (\<exists>file tmp job wI.
      awaiting (the (Option.bind firstFileArchived (turn 3 (FetchSettled 0 (Resolved True))))) =
        [AwaitBuffer 1 file tmp] \<and>
      getDownloadJob 1 (storage
        (the (Option.bind firstFileArchived (turn 3 (FetchSettled 0 (Resolved True)))))) = Some job \<and>
      map_option (ticks (successTicks file) 3)
        (settle (BufferSettled 0 (Resolved 4096))
           (the (Option.bind firstFileArchived (turn 3 (FetchSettled 0 (Resolved True)))))) =
        Some (wI\<lparr>microtasks := [DownloadFile_afterIncrement 1 file job]\<rparr>) \<and>
      jobView 1 wI = Some (''completed'', 2, 1) \<and>
      map_option (ticks (Suc (successTicks file)) 3)
        (settle (BufferSettled 0 (Resolved 4096))
           (the (Option.bind firstFileArchived (turn 3 (FetchSettled 0 (Resolved True)))))) =
        Some (completeJob 1 (DownloadFile_finish 1 file) wI))"
proof -
  define w where "w = the (Option.bind firstFileArchived (turn 3 (FetchSettled 0 (Resolved True))))"
  define pdf where "pdf = (case awaiting w ! 0 of AwaitBuffer j f t \<Rightarrow> f)"
  define job where "job = the (getDownloadJob 1 (storage w))"
  have idle: "microtasks w = []" unfolding w_def by code_simp
  have view: "jobView 1 w = Some (''completed'', 1, 1)" unfolding w_def by code_simp
  have aw: "awaiting w = [AwaitBuffer 1 pdf ''1-104-10002.pdf'']"
    unfolding pdf_def w_def by code_simp
  have job: "getDownloadJob 1 (storage w) = Some job" unfolding job_def w_def by code_simp
  have numbers: "job_downloadedFiles job = 1 \<and> job_totalFiles job = 1"
    unfolding job_def w_def by code_simp
  from aw have i: "0 < length (awaiting w)"
    and at: "awaiting w ! 0 = AwaitBuffer 1 pdf ''1-104-10002.pdf''"
    by simp_all
  from C2_increment_then_check [OF idle i at job, of 3 4096]
  obtain wI where run: "map_option (ticks (successTicks pdf) 3)
        (settle (BufferSettled 0 (Resolved 4096)) w) =
        Some (wI\<lparr>microtasks := [DownloadFile_afterIncrement 1 pdf job]\<rparr>)"
    and jobI: "getDownloadJob 1 (storage wI) =
       Some (job\<lparr>job_downloadedFiles := job_downloadedFiles job + 1,
                 job_size := Some (sizeOrDefault job)\<rparr>)"
    and fire: "map_option (ticks (Suc (successTicks pdf)) 3)
         (settle (BufferSettled 0 (Resolved 4096)) w) =
       Some (if job_downloadedFiles job + 1 \<ge> job_totalFiles job
             then completeJob 1 (DownloadFile_finish 1 pdf) wI
             else downloadFile_finish 1 pdf wI)"
    by blast
  have status: "job_status job = ''completed''"
    using view job by (simp add: jobView_def)
  have viewI: "jobView 1 wI = Some (''completed'', 2, 1)"
    using jobI numbers status by (simp add: jobView_def)
  have fire': "map_option (ticks (Suc (successTicks pdf)) 3)
         (settle (BufferSettled 0 (Resolved 4096)) w) =
       Some (completeJob 1 (DownloadFile_finish 1 pdf) wI)"
    using fire numbers by simp
  show ?thesis
    using idle view aw job run viewI fire' unfolding w_def [symmetric] by blast
qed

lemma map_update_snd:
  "map (\<lambda>item. (fst item, c (snd item))) (AList.update i v al) =
   AList.update i (c v) (map (\<lambda>item. (fst item, c (snd item))) al)"
  by (induction al) auto

lemma map_of_map_snd:
  "map_of (map (\<lambda>item. (fst item, c (snd item))) al) i = map_option c (map_of al i)"
  by (induction al) auto

lemma counters_fields [simp]:
  "counters (w\<lparr>microtasks := m\<rparr>) = counters w"
  "counters (w\<lparr>awaiting := a\<rparr>) = counters w"
  "counters (w\<lparr>tempDir := d\<rparr>) = counters w"
  "counters (w\<lparr>downloader := dl\<rparr>) = counters w"
  by (simp_all add: counters_def)

lemma counters_simple [simp]:
  "counters (suspend t w) = counters w"
  "counters (startIO x w) = counters w"
  "counters (activeDelete i w) = counters w"
  "counters (queuePush e w) = counters w"
  by (simp_all add: suspend_def startIO_def activeDelete_def queuePush_def)

lemma counters_file_update [simp]:
  "counters (withStorage (updatePdfFile i d) w) = counters w"
  by (simp add: counters_def withStorage_def)

lemma counters_history [simp]:
  "counters (withStorage (createHistoryEntry now act det cnt) w) = counters w"
  by (simp add: counters_def withStorage_def)

lemma counters_archive [simp]:
  "counters (withStorage (createCompletedDownload now fname cont sz pth) w) = counters w"
  by (simp add: counters_def withStorage_def)

lemma counters_job_update:
  "counters (withStorage (updateDownloadJob i d) w) =
     (case getDownloadJob i (storage w) of
        None \<Rightarrow> counters w
      | Some job \<Rightarrow>
          AList.update i (orElse (q_downloadedFiles d) (job_downloadedFiles job)) (counters w))"
  by (simp add: counters_def withStorage_def updateDownloadJob_def getDownloadJob_def Let_def
      map_update_snd spreadDownloadJob_def split: option.splits)

lemma counters_job_update_other [simp]:
  assumes "q_downloadedFiles d = None"
  shows "counters (withStorage (updateDownloadJob i d) w) = counters w"
proof (cases "getDownloadJob i (storage w)")
  case None
  then show ?thesis by (simp add: counters_job_update)
next
  case (Some job)
  have "map_of (counters w) i = Some (job_downloadedFiles job)"
    using Some by (simp add: counters_def getDownloadJob_def map_of_map_snd)
  then have "AList.update i (job_downloadedFiles job) (counters w) = counters w"
    by (rule update_triv)
  then show ?thesis
    using Some assms by (simp add: counters_job_update orElse_def)
qed

lemma counters_processQueue [simp]: "counters (processQueue w) = counters w"
  by (simp add: processQueue_closed_form counters_def)

lemma counters_finish [simp]: "counters (downloadFile_finish jobId file w) = counters w"
  by (simp add: downloadFile_finish_def)

lemma counters_catch [simp]: "counters (downloadFile_catch jobId file w) = counters w"
  by (simp add: downloadFile_catch_def)

lemma counters_completeJob_catch [simp]:
  "counters (completeJob_catch now jobId msg k w) = counters w"
  by (simp add: completeJob_catch_def noJobFields_def)



subsection \<open>Dequeuing\<close>

text \<open>
  C8 as stated fails where a file is submitted again while its transfer is in flight:
  when the transfer has succeeded the file is \<open>completed\<close>, the entry of the second
  submission is then dequeued, and the fetch for it starts without any failure.
\<close>

theorem C8_dequeue_of_completed_file_counterexample:
  "map_option (\<lambda>w. (fileStatuses w, map (\<lambda>item. (fst item, pdf_id (snd item))) (queue (downloader w)),
                     transfersInFlight w)) beforeDequeue =
     Some ([Completed, Downloading, Downloading], [(2, 1)], [2, 3]) \<and>
   map_option (\<lambda>w. (fileStatuses w, map (\<lambda>item. (fst item, pdf_id (snd item))) (queue (downloader w)),
                     transfersInFlight w)) afterDequeue =
     Some ([Downloading, Downloading, Downloading], [], [2, 3, 1])"
  by code_simp

text \<open>
  C8, amended. The loop of \<open>processQueue\<close> does not look at the status of a
  dequeued entry's file: for the entry at the head of the queue, with a free slot and a
  job that is not cancelled, it calls \<open>downloadFile\<close>, which sets the stored file to
  \<open>downloading\<close> with progress 0 whatever its status was, and whose continuation
  starts the fetch.
\<close>

theorem C8_dequeue_ignores_status:
  assumes free: "length (activeDownloads (downloader w)) < maxConcurrentDownloads (downloader w)"
    and head: "queue (downloader w) = (jobId, file) # rest"
    and live: "jobId \<notin> cancelledJobs (downloader w)"
    and stored: "getPdfFile (pdf_id file) (storage w) = Some stored"
  shows "\<exists>w1. w1 = downloadFile jobId file (w\<lparr>downloader := (downloader w)\<lparr>queue := rest\<rparr>\<rparr>) \<and>
     processQueue w = processQueue w1 \<and>
     getPdfFile (pdf_id file) (storage w1) =
       Some (stored\<lparr>pdf_status := Downloading, pdf_progress := 0\<rparr>) \<and>
     microtasks w1 = microtasks w @ [DownloadFile_register jobId file] \<and>
     DownloadFile_register jobId file \<in> set (microtasks (processQueue w)) \<and>
     transfersInFlight (run_task now (DownloadFile_register jobId file) w1) =
       transfersInFlight w1 @ [pdf_id file]"
proof -
  define w1 where "w1 = downloadFile jobId file (w\<lparr>downloader := (downloader w)\<lparr>queue := rest\<rparr>\<rparr>)"
  have step: "processQueue w = processQueue w1"
    unfolding w1_def by (rule processQueue_Cons_start [OF free head live])
  have status: "getPdfFile (pdf_id file) (storage w1) =
       Some (stored\<lparr>pdf_status := Downloading, pdf_progress := 0\<rparr>)"
    using stored
    by (simp add: w1_def downloadFile_def suspend_def withStorage_def getPdfFile_def
        updatePdfFile_def Let_def update_conv' spreadPdfFile_def noPdfFields_def orElse_def)
  have tasks: "microtasks w1 = microtasks w @ [DownloadFile_register jobId file]"
    by (simp add: w1_def downloadFile_def suspend_def withStorage_def)
  have kept: "DownloadFile_register jobId file \<in> set (microtasks (processQueue w))"
    using free head live by (simp add: processQueue_closed_form startable_def)
  have fetch: "transfersInFlight (run_task now (DownloadFile_register jobId file) w1) =
       transfersInFlight w1 @ [pdf_id file]"
    by (simp add: transfersInFlight_def downloadFile_register_def startIO_def Let_def
        List.map_filter_def)
  show ?thesis
    using step status tasks kept fetch w1_def by blast
qed

text \<open>
  The theorem at the state in which \<open>processQueue\<close> runs in the scenario: the file of
  the entry at the head of the queue is \<open>completed\<close>.
\<close>

theorem C8_dequeue_ignores_status_witness:
  "(\<exists>w file stored w1.
      w = activeDelete 1 ((the beforeDequeue)\<lparr>microtasks := []\<rparr>) \<and>
      length (activeDownloads (downloader w)) < maxConcurrentDownloads (downloader w) \<and>
      queue (downloader w) = [(2, file)] \<and> 2 \<notin> cancelledJobs (downloader w) \<and>
      pdf_id file = 1 \<and>
      getPdfFile 1 (storage w) = Some stored \<and> pdf_status stored = Completed \<and>
      processQueue w = processQueue w1 \<and>
      map_option pdf_status (getPdfFile 1 (storage w1)) = Some Downloading \<and>
      DownloadFile_register 2 file \<in> set (microtasks (processQueue w)))"
proof -
  define w where "w = activeDelete 1 ((the beforeDequeue)\<lparr>microtasks := []\<rparr>)"
  define pdf where "pdf = snd (hd (queue (downloader w)))"
  define stored where "stored = the (getPdfFile 1 (storage w))"
  have free: "length (activeDownloads (downloader w)) < maxConcurrentDownloads (downloader w)"
    unfolding w_def by code_simp
  have head: "queue (downloader w) = (2, pdf) # []"
    unfolding pdf_def w_def by code_simp
  have live: "2 \<notin> cancelledJobs (downloader w)"
    unfolding w_def by code_simp
  have fid: "pdf_id pdf = 1" unfolding pdf_def w_def by code_simp
  have stored: "getPdfFile (pdf_id pdf) (storage w) = Some stored"
    unfolding fid unfolding stored_def w_def by code_simp
  have completed: "pdf_status stored = Completed"
    unfolding stored_def w_def by code_simp
  from C8_dequeue_ignores_status [OF free head live stored, of 4]
  obtain w1 where step: "processQueue w = processQueue w1"
    and status: "getPdfFile (pdf_id pdf) (storage w1) =
       Some (stored\<lparr>pdf_status := Downloading, pdf_progress := 0\<rparr>)"
    and kept: "DownloadFile_register 2 pdf \<in> set (microtasks (processQueue w))"
    by blast
  have status': "map_option pdf_status (getPdfFile 1 (storage w1)) = Some Downloading"
    using status fid by simp
  show ?thesis
    using free head live fid stored completed step status' kept w_def
    by (intro exI [of _ w] exI [of _ pdf] exI [of _ stored] exI [of _ w1]) simp
qed

end
